theory Spec2Isabelle
  imports Complex_Main
begin

section \<open>Python strings\<close>

text \<open>
  A Python \<open>str\<close> is a sequence of Unicode code points. It is modelled as a list of
  natural numbers, one per code point, so that \<open>len\<close>, \<open>count\<close>, slicing and the
  substring test count what Python counts. ASCII literals of the source are written with
  \<open>asc\<close>; literals with Arabic text are written as the list of their code points.
\<close>

type_synonym pystr = "nat list"

definition asc :: "string \<Rightarrow> pystr" where
  "asc s = map of_char s"

text \<open>\<open>str.isspace\<close> on one code point: the characters \<open>str.strip()\<close> and
  \<open>str.split()\<close> treat as whitespace.\<close>

definition is_space :: "nat \<Rightarrow> bool" where
  "is_space c \<longleftrightarrow>
     (0x9 \<le> c \<and> c \<le> 0xD) \<or> (0x1C \<le> c \<and> c \<le> 0x20) \<or> c = 0x85 \<or> c = 0xA0 \<or>
     c = 0x1680 \<or> (0x2000 \<le> c \<and> c \<le> 0x200A) \<or> c = 0x2028 \<or> c = 0x2029 \<or>
     c = 0x202F \<or> c = 0x205F \<or> c = 0x3000"

definition strip :: "pystr \<Rightarrow> pystr" where
  "strip s = rev (dropWhile is_space (rev (dropWhile is_space s)))"

text \<open>\<open>s.split()\<close> with no argument: the maximal runs of non-whitespace.\<close>

fun split_words :: "pystr \<Rightarrow> pystr \<Rightarrow> pystr list" where
  "split_words cur [] = (if cur = [] then [] else [rev cur])"
| "split_words cur (c # cs) =
     (if is_space c then (if cur = [] then split_words [] cs else rev cur # split_words [] cs)
      else split_words (c # cur) cs)"

definition split_ws :: "pystr \<Rightarrow> pystr list" where
  "split_ws s = split_words [] s"

fun startswith :: "pystr \<Rightarrow> pystr \<Rightarrow> bool" where
  "startswith [] s = True"
| "startswith (p # ps) [] = False"
| "startswith (p # ps) (c # cs) = (p = c \<and> startswith ps cs)"

text \<open>\<open>sub in s\<close> on strings: \<open>sub\<close> occurs as a contiguous piece of \<open>s\<close>.\<close>

fun py_in :: "pystr \<Rightarrow> pystr \<Rightarrow> bool" where
  "py_in sub [] = (sub = [])"
| "py_in sub (c # cs) = (startswith sub (c # cs) \<or> py_in sub cs)"

text \<open>\<open>any(w in s for w in ws)\<close>.\<close>

definition any_in :: "pystr list \<Rightarrow> pystr \<Rightarrow> bool" where
  "any_in ws s = list_ex (\<lambda>w. py_in w s) ws"

text \<open>\<open>s.count(c)\<close> and \<open>s.replace(c, '')\<close> for a one-character \<open>c\<close>.\<close>

definition count_char :: "nat \<Rightarrow> pystr \<Rightarrow> nat" where
  "count_char c s = length (filter (\<lambda>x. x = c) s)"

definition remove_char :: "nat \<Rightarrow> pystr \<Rightarrow> pystr" where
  "remove_char c s = filter (\<lambda>x. x \<noteq> c) s"

text \<open>\<open>s.split(sep)\<close> and \<open>s.replace(old, new)\<close> for a non-empty \<open>sep\<close>/\<open>old\<close>:
  both scan from the left and take non-overlapping occurrences.\<close>

fun split_scan :: "pystr \<Rightarrow> pystr \<Rightarrow> nat \<Rightarrow> pystr \<Rightarrow> pystr list" where
  "split_scan sep cur skip [] = [rev cur]"
| "split_scan sep cur (Suc k) (c # cs) = split_scan sep cur k cs"
| "split_scan sep cur 0 (c # cs) =
     (if startswith sep (c # cs) then rev cur # split_scan sep [] (length sep - 1) cs
      else split_scan sep (c # cur) 0 cs)"

definition split_on :: "pystr \<Rightarrow> pystr \<Rightarrow> pystr list" where
  "split_on sep s = split_scan sep [] 0 s"

text \<open>\<open>sep.join(xs)\<close>.\<close>

fun join :: "pystr \<Rightarrow> pystr list \<Rightarrow> pystr" where
  "join sep [] = []"
| "join sep [x] = x"
| "join sep (x # y # ys) = x @ sep @ join sep (y # ys)"

definition replace :: "pystr \<Rightarrow> pystr \<Rightarrow> pystr \<Rightarrow> pystr" where
  "replace old new s = join new (split_on old s)"

text \<open>\<open>str(n)\<close> and the \<open>{n}\<close> of an f-string for an integer: decimal digits, with a
  minus sign for a negative number.\<close>

fun digits :: "nat \<Rightarrow> pystr" where
  "digits n = (if n < 10 then [0x30 + n] else digits (n div 10) @ [0x30 + n mod 10])"

declare digits.simps [simp del]

definition str_int :: "int \<Rightarrow> pystr" where
  "str_int i = (if i < 0 then 0x2D # digits (nat (- i)) else digits (nat i))"

text \<open>\<open>xs[-n:]\<close> for a positive \<open>n\<close>: the last \<open>n\<close> elements, all of them when there
  are fewer.\<close>

definition last_n :: "nat \<Rightarrow> 'a list \<Rightarrow> 'a list" where
  "last_n n xs = drop (length xs - n) xs"

section \<open>Dictionaries that keep insertion order\<close>

text \<open>
  A Python \<open>dict\<close> iterates in insertion order, and the source sorts and filters the
  items of its counters, so a counter is an association list with one entry per key:
  assigning to a key that is present keeps its place, a new key goes to the end.
\<close>

fun dict_get :: "('k \<times> 'v) list \<Rightarrow> 'k \<Rightarrow> 'v \<Rightarrow> 'v" where
  "dict_get [] k d = d"
| "dict_get ((k', v') # kvs) k d = (if k' = k then v' else dict_get kvs k d)"

fun dict_set :: "('k \<times> 'v) list \<Rightarrow> 'k \<Rightarrow> 'v \<Rightarrow> ('k \<times> 'v) list" where
  "dict_set [] k v = [(k, v)]"
| "dict_set ((k', v') # kvs) k v =
     (if k' = k then (k', v) # kvs else (k', v') # dict_set kvs k v)"

text \<open>\<open>d[k] = d.get(k, 0) + 1\<close>.\<close>

definition dict_incr :: "('k \<times> int) list \<Rightarrow> 'k \<Rightarrow> ('k \<times> int) list" where
  "dict_incr d k = dict_set d k (dict_get d k 0 + 1)"

section \<open>The stores of the bot\<close>

text \<open>
  One exchange of a conversation (bot_handlers.py, lines 138-142), one entry of the
  question history (lines 251-256) and the long-term memory of one user (lines 210-218).
  The time stamps are readings of the clock: they are inputs of the model and are only
  stored. The memory is the dictionary the source itself creates, with every one of its
  seven keys present; on such a dictionary the loop of lines 233-235, which adds the keys
  that are absent, changes nothing.
\<close>

record exchange =
  ex_user :: pystr
  ex_assistant :: pystr
  ex_timestamp :: real

record question =
  q_question :: pystr
  q_full_message :: pystr
  q_timestamp :: real
  q_response_type :: pystr

record memory =
  frequent_topics :: "(pystr \<times> int) list"
  communication_style :: "pystr list"
  preferences :: "(pystr \<times> pystr) list"
  total_messages :: int
  question_history :: "question list"
  conversation_themes :: "(pystr \<times> int) list"
  response_preferences :: "(pystr \<times> pystr) list"

datatype mode = Chat | Image | Imagine_prompt

text \<open>
  The client of the providers, as far as the handlers look at it: the key of the
  secondary provider, read from the environment (multi_ai_client.py, lines 37-52). The
  secondary client exists exactly when the key is a non-empty string.
\<close>

record ai_client =
  gemini_api_key :: "pystr option"

definition gemini_client :: "ai_client \<Rightarrow> bool" where
  "gemini_client c = (case gemini_api_key c of None \<Rightarrow> False | Some k \<Rightarrow> k \<noteq> [])"

text \<open>
  The fields of \<open>BotHandlers\<close> (bot_handlers.py, lines 21-48). The keys of
  \<open>group_status\<close> are the decimal strings of the chat identifiers, which determine the
  identifiers, so the map is indexed by the identifier itself. The files behind the
  stores are rewritten after each change and a failure to write is logged and dropped;
  they are not part of the state.
\<close>

record bot =
  ai_client :: "ai_client option"
  user_modes :: "int \<rightharpoonup> mode"
  users :: "int set"
  group_status :: "int \<rightharpoonup> bool"
  conversations :: "int \<rightharpoonup> exchange list"
  long_term_memory :: "int \<rightharpoonup> memory"

definition max_messages_per_user :: nat where
  "max_messages_per_user = 100"

section \<open>Keyword tables of the conversation memory\<close>

definition extended_keywords :: "pystr list" where
  \<comment> \<open>update_long_term_memory, lines 241-242\<close>
  "extended_keywords =
     [[0x630, 0x627, 0x643, 0x631, 0x629],
      [0x62A, 0x642, 0x64A, 0x64A, 0x645],
      [0x643, 0x645, 0x20, 0x645, 0x646, 0x20, 0x31, 0x30],
      [0x62C, 0x64A, 0x62F],
      [0x645, 0x645, 0x62A, 0x627, 0x632],
      [0x634, 0x644, 0x648, 0x646, 0x643],
      [0x635, 0x648, 0x631, 0x629],
      [0x645, 0x633, 0x627, 0x639, 0x62F, 0x629],
      [0x643, 0x64A, 0x641],
      [0x634, 0x646, 0x648],
      [0x648, 0x64A, 0x646],
      [0x644, 0x64A, 0x634],
      [0x645, 0x62A, 0x649],
      [0x623, 0x633, 0x626, 0x644, 0x629],
      [0x645, 0x639, 0x644, 0x648, 0x645, 0x627, 0x62A],
      [0x634, 0x631, 0x62D]]"

definition question_patterns :: "(pystr \<times> pystr) list" where
  \<comment> \<open>extract_question_essence, lines 333-343, in the order of the dict\<close>
  "question_patterns =
     [([0x634, 0x646, 0x648], asc ''what_question''),
      ([0x643, 0x64A, 0x641], asc ''how_question''),
      ([0x648, 0x64A, 0x646], asc ''where_question''),
      ([0x645, 0x62A, 0x649], asc ''when_question''),
      ([0x644, 0x64A, 0x634], asc ''why_question''),
      ([0x643, 0x645, 0x20, 0x645, 0x646, 0x20, 0x31, 0x30], asc ''rating_question''),
      ([0x634, 0x644, 0x648, 0x646, 0x643], asc ''greeting_question''),
      ([0x645, 0x633, 0x627, 0x639, 0x62F, 0x629], asc ''help_question''),
      ([0x634, 0x631, 0x62D], asc ''explain_request'')]"

definition question_mark :: "pystr" where
  \<comment> \<open>the Arabic question mark, line 350\<close>
  "question_mark =
     [0x61F]"

definition inquiry_words :: "pystr list" where
  \<comment> \<open>line 350\<close>
  "inquiry_words =
     [[0x623, 0x631, 0x64A, 0x62F],
      [0x623, 0x628, 0x63A, 0x649],
      [0x639, 0x627, 0x648, 0x632],
      [0x628, 0x62F, 0x64A]]"

definition explanation_words :: "pystr list" where
  \<comment> \<open>categorize_response, line 359\<close>
  "explanation_words =
     [[0x634, 0x631, 0x62D],
      [0x62A, 0x641, 0x635, 0x64A, 0x644],
      [0x645, 0x639, 0x644, 0x648, 0x645, 0x627, 0x62A]]"

definition simple_answer_words :: "pystr list" where
  \<comment> \<open>line 361\<close>
  "simple_answer_words =
     [[0x646, 0x639, 0x645],
      [0x644, 0x627],
      [0x635, 0x62D],
      [0x62E, 0x637, 0x623]]"

definition guidance_words :: "pystr list" where
  \<comment> \<open>line 363\<close>
  "guidance_words =
     [[0x645, 0x633, 0x627, 0x639, 0x62F, 0x629],
      [0x62E, 0x62F, 0x645, 0x629],
      [0x623, 0x633, 0x627, 0x639, 0x62F, 0x643]]"

definition rating_words :: "pystr list" where
  \<comment> \<open>line 365\<close>
  "rating_words =
     [[0x62F, 0x631, 0x62C, 0x629],
      [0x62A, 0x642, 0x64A, 0x64A, 0x645]]"

definition theme_patterns :: "(pystr \<times> pystr list) list" where
  \<comment> \<open>detect_conversation_theme, lines 374-380, in the order of the dict\<close>
  "theme_patterns =
     [([0x62A, 0x642, 0x646, 0x64A, 0x629],
       [[0x628, 0x631, 0x645, 0x62C, 0x629],
        [0x643, 0x645, 0x628, 0x64A, 0x648, 0x62A, 0x631],
        [0x625, 0x646, 0x62A, 0x631, 0x646, 0x62A],
        [0x62A, 0x637, 0x628, 0x64A, 0x642],
        [0x645, 0x648, 0x642, 0x639],
        [0x630, 0x643, 0x627, 0x621, 0x20, 0x627, 0x635, 0x637, 0x646, 0x627, 0x639, 0x64A]]),
      ([0x62A, 0x639, 0x644, 0x64A, 0x645, 0x64A, 0x629],
       [[0x634, 0x631, 0x62D],
        [0x62A, 0x639, 0x644, 0x645],
        [0x62F, 0x631, 0x627, 0x633, 0x629],
        [0x643, 0x62A, 0x627, 0x628],
        [0x645, 0x639, 0x644, 0x648, 0x645, 0x627, 0x62A],
        [0x623, 0x633, 0x626, 0x644, 0x629]]),
      ([0x634, 0x62E, 0x635, 0x64A, 0x629],
       [[0x634, 0x644, 0x648, 0x646, 0x643],
        [0x643, 0x64A, 0x641, 0x643],
        [0x623, 0x62E, 0x628, 0x627, 0x631],
        [0x62D, 0x627, 0x644],
        [0x635, 0x62D, 0x629]]),
      ([0x637, 0x644, 0x628, 0x20, 0x645, 0x633, 0x627, 0x639, 0x62F, 0x629],
       [[0x645, 0x633, 0x627, 0x639, 0x62F, 0x629],
        [0x633, 0x627, 0x639, 0x62F, 0x646, 0x64A],
        [0x623, 0x62D, 0x62A, 0x627, 0x62C],
        [0x628, 0x62F, 0x64A],
        [0x623, 0x631, 0x64A, 0x62F]]),
      ([0x62A, 0x642, 0x64A, 0x64A, 0x645],
       [[0x643, 0x645, 0x20, 0x645, 0x646, 0x20, 0x31, 0x30],
        [0x62A, 0x642, 0x64A, 0x64A, 0x645],
        [0x631, 0x623, 0x64A],
        [0x62F, 0x631, 0x62C, 0x629],
        [0x62C, 0x64A, 0x62F],
        [0x645, 0x645, 0x62A, 0x627, 0x632]])]"

definition theme_general :: "pystr" where
  \<comment> \<open>line 386\<close>
  "theme_general =
     [0x639, 0x627, 0x645]"

definition follow_up_indicators :: "pystr list" where
  \<comment> \<open>has_conversation_progression, line 395\<close>
  "follow_up_indicators =
     [[0x648, 0x628, 0x639, 0x62F, 0x64A, 0x646],
      [0x643, 0x645, 0x627, 0x646],
      [0x623, 0x64A, 0x636, 0x627, 0x64B],
      [0x644, 0x643, 0x646],
      [0x645, 0x627, 0x630, 0x627, 0x20, 0x639, 0x646],
      [0x648, 0x625, 0x64A, 0x634],
      [0x648, 0x634, 0x646, 0x648]]"

definition rating_phrase_short :: "pystr" where
  \<comment> \<open>line 262, first operand\<close>
  "rating_phrase_short =
     [0x645, 0x646, 0x20, 0x31, 0x30]"

definition rating_phrase_long :: "pystr" where
  \<comment> \<open>line 262, second operand\<close>
  "rating_phrase_long =
     [0x643, 0x645, 0x20, 0x645, 0x646, 0x20, 0x31, 0x30]"

definition style_numeric_ratings :: "pystr" where
  \<comment> \<open>line 263: likes numeric ratings\<close>
  "style_numeric_ratings =
     [0x64A, 0x62D, 0x628, 0x20, 0x627, 0x644, 0x62A, 0x642, 0x64A, 0x64A, 0x645, 0x627, 0x62A, 0x20,
      0x627, 0x644, 0x631, 0x642, 0x645, 0x64A, 0x629]"

definition style_short_messages :: "pystr" where
  \<comment> \<open>line 267: uses short messages\<close>
  "style_short_messages =
     [0x64A, 0x633, 0x62A, 0x62E, 0x62F, 0x645, 0x20, 0x631, 0x633, 0x627, 0x626, 0x644, 0x20, 0x642,
      0x635, 0x64A, 0x631, 0x629]"

definition style_detailed :: "pystr" where
  \<comment> \<open>line 270: prefers the detailed explanation\<close>
  "style_detailed =
     [0x64A, 0x641, 0x636, 0x644, 0x20, 0x627, 0x644, 0x634, 0x631, 0x62D, 0x20, 0x627, 0x644, 0x645,
      0x641, 0x635, 0x644]"


section \<open>Pattern extraction\<close>

text \<open>
  \<open>str.lower\<close> follows the case tables of Unicode, which are not part of the repository.
  Every function that lowers a string takes the lowering as its first argument, and the
  theorems hold for every such function. \<open>lower_ascii\<close> lowers the letters A to Z and
  agrees with \<open>str.lower\<close> on strings of ASCII and Arabic characters; it is the argument
  wherever a function is evaluated on a concrete input.
\<close>

definition lower_ascii :: "pystr \<Rightarrow> pystr" where
  "lower_ascii s = map (\<lambda>c. if 0x41 \<le> c \<and> c \<le> 0x5A then c + 0x20 else c) s"

definition extract_question_essence :: "(pystr \<Rightarrow> pystr) \<Rightarrow> pystr \<Rightarrow> pystr" where
  "extract_question_essence lower message =
     (let message_lower = strip (lower message) in
      case find (\<lambda>(pattern, essence). py_in pattern message_lower) question_patterns of
        Some (pattern, essence) \<Rightarrow> essence
      | None \<Rightarrow>
          if py_in question_mark message \<or> any_in inquiry_words message_lower
          then asc ''general_inquiry'' else [])"

definition categorize_response :: "(pystr \<Rightarrow> pystr) \<Rightarrow> pystr \<Rightarrow> pystr" where
  "categorize_response lower response =
     (let response_lower = lower response in
      if any_in explanation_words response_lower then asc ''detailed_explanation''
      else if any_in simple_answer_words response_lower then asc ''simple_answer''
      else if any_in guidance_words response_lower then asc ''helpful_guidance''
      else if py_in (asc ''/10'') response \<or> any_in rating_words response_lower
        then asc ''rating_response''
      else asc ''general_response'')"

definition detect_conversation_theme :: "(pystr \<Rightarrow> pystr) \<Rightarrow> pystr \<Rightarrow> pystr" where
  "detect_conversation_theme lower message =
     (let message_lower = lower message in
      case find (\<lambda>(theme, keywords). any_in keywords message_lower) theme_patterns of
        Some (theme, keywords) \<Rightarrow> theme
      | None \<Rightarrow> theme_general)"

text \<open>\<open>has_conversation_progression\<close>: a follow-up word in any message but the first.\<close>

definition has_conversation_progression :: "(pystr \<Rightarrow> pystr) \<Rightarrow> pystr list \<Rightarrow> bool" where
  "has_conversation_progression lower messages =
     (if length messages < 2 then False
      else list_ex (\<lambda>current_msg. any_in follow_up_indicators (lower current_msg))
             (tl messages))"

text \<open>\<open>if d not in style: style.append(d)\<close>.\<close>

definition add_style :: "pystr \<Rightarrow> pystr list \<Rightarrow> pystr list" where
  "add_style d style = (if d \<in> set style then style else style @ [d])"

definition new_memory :: memory where
  "new_memory = \<lparr> frequent_topics = [], communication_style = [], preferences = [],
     total_messages = 0, question_history = [], conversation_themes = [],
     response_preferences = [] \<rparr>"

text \<open>
  The body of \<open>update_long_term_memory\<close> on the memory of the user (lines 237-276);
  \<open>now\<close> is the clock reading of line 254.
\<close>

definition update_memory ::
  "(pystr \<Rightarrow> pystr) \<Rightarrow> memory \<Rightarrow> pystr \<Rightarrow> pystr \<Rightarrow> real \<Rightarrow> memory" where
  "update_memory lower memory user_message bot_response now =
     (let m1 = memory \<lparr> total_messages := total_messages memory + 1 \<rparr>;
          user_lower = lower user_message;
          m2 = m1 \<lparr> frequent_topics :=
                 foldl (\<lambda>topics keyword.
                          if py_in keyword user_lower then dict_incr topics keyword else topics)
                   (frequent_topics m1) extended_keywords \<rparr>;
          question_essence = extract_question_essence lower user_message;
          m3 = (if question_essence \<noteq> [] then
                  (let history = question_history m2 @
                         [\<lparr> q_question = question_essence, q_full_message = user_message,
                            q_timestamp = now,
                            q_response_type = categorize_response lower bot_response \<rparr>]
                   in m2 \<lparr> question_history :=
                        (if length history > 20 then last_n 20 history else history) \<rparr>)
                else m2);
          m4 = (if py_in rating_phrase_short user_lower \<or> py_in rating_phrase_long user_lower
                then m3 \<lparr> communication_style :=
                       add_style style_numeric_ratings (communication_style m3) \<rparr>
                else m3);
          m5 = (if length (split_ws user_message) \<le> 3
                then m4 \<lparr> communication_style :=
                       add_style style_short_messages (communication_style m4) \<rparr>
                else if length (split_ws user_message) > 15
                then m4 \<lparr> communication_style :=
                       add_style style_detailed (communication_style m4) \<rparr>
                else m4);
          theme = detect_conversation_theme lower user_message
      in if theme \<noteq> [] then
           m5 \<lparr> conversation_themes := dict_incr (conversation_themes m5) theme \<rparr>
         else m5)"

definition update_long_term_memory ::
  "(pystr \<Rightarrow> pystr) \<Rightarrow> bot \<Rightarrow> int \<Rightarrow> pystr \<Rightarrow> pystr \<Rightarrow> real \<Rightarrow> bot" where
  "update_long_term_memory lower b user_id user_message bot_response now =
     (let memory = (case long_term_memory b user_id of None \<Rightarrow> new_memory | Some m \<Rightarrow> m)
      in b \<lparr> long_term_memory :=
             (long_term_memory b)(user_id \<mapsto>
                update_memory lower memory user_message bot_response now) \<rparr>)"

section \<open>Conversation history\<close>

text \<open>
  \<open>add_message_to_conversation\<close> (lines 130-154); \<open>t1\<close> is the clock reading of
  line 141 and \<open>t2\<close> the one taken inside \<open>update_long_term_memory\<close>.
\<close>

definition add_message_to_conversation ::
  "(pystr \<Rightarrow> pystr) \<Rightarrow> bot \<Rightarrow> int \<Rightarrow> pystr \<Rightarrow> pystr \<Rightarrow> real \<Rightarrow> real \<Rightarrow> bot" where
  "add_message_to_conversation lower b user_id user_message bot_response t1 t2 =
     (let old = (case conversations b user_id of None \<Rightarrow> [] | Some xs \<Rightarrow> xs);
          appended = old @ [\<lparr> ex_user = user_message, ex_assistant = bot_response,
                              ex_timestamp = t1 \<rparr>];
          kept = (if length appended > max_messages_per_user
                  then last_n max_messages_per_user appended else appended);
          b1 = b \<lparr> conversations := (conversations b)(user_id \<mapsto> kept) \<rparr>
      in update_long_term_memory lower b1 user_id user_message bot_response t2)"

text \<open>\<open>clear_conversation\<close> (lines 404-408).\<close>

definition clear_conversation :: "bot \<Rightarrow> int \<Rightarrow> bot" where
  "clear_conversation b user_id =
     (if user_id \<in> dom (conversations b)
      then b \<lparr> conversations := (conversations b)(user_id := None) \<rparr>
      else b)"

section \<open>The context block\<close>

definition context_header :: "pystr" where
  \<comment> \<open>get_conversation_context, line 161\<close>
  "context_header =
     [0x3D, 0x3D, 0x3D, 0x20, 0x627, 0x644, 0x645, 0x62D, 0x627, 0x62F, 0x62B, 0x629, 0x20, 0x627,
      0x644, 0x633, 0x627, 0x628, 0x642, 0x629, 0x20, 0x3D, 0x3D, 0x3D, 0xA]"

definition user_label :: "pystr" where
  \<comment> \<open>line 166, between the number and the text of the user\<close>
  "user_label =
     [0x20, 0x627, 0x644, 0x645, 0x633, 0x62A, 0x62E, 0x62F, 0x645, 0x3A, 0x20]"

definition bot_label :: "pystr" where
  \<comment> \<open>line 168\<close>
  "bot_label =
     [0x627, 0x644, 0x628, 0x648, 0x62A, 0x3A, 0x20]"

definition patterns_header :: "pystr" where
  \<comment> \<open>line 173\<close>
  "patterns_header =
     [0x3D, 0x3D, 0x3D, 0x20, 0x623, 0x646, 0x645, 0x627, 0x637, 0x20, 0x627, 0x644, 0x645, 0x633,
      0x62A, 0x62E, 0x62F, 0x645, 0x20, 0x3D, 0x3D, 0x3D, 0xA]"

definition analysis_header :: "pystr" where
  \<comment> \<open>line 178\<close>
  "analysis_header =
     [0x3D, 0x3D, 0x3D, 0x20, 0x62A, 0x62D, 0x644, 0x64A, 0x644, 0x20, 0x627, 0x644, 0x645, 0x62D,
      0x627, 0x62F, 0x62B, 0x629, 0x20, 0x3D, 0x3D, 0x3D, 0xA]"

definition instructions_header :: "pystr" where
  \<comment> \<open>line 180\<close>
  "instructions_header =
     [0x3D, 0x3D, 0x3D, 0x20, 0x627, 0x644, 0x62A, 0x639, 0x644, 0x64A, 0x645, 0x627, 0x62A, 0x20,
      0x627, 0x644, 0x645, 0x62D, 0x633, 0x646, 0x629, 0x20, 0x3D, 0x3D, 0x3D, 0xA]"

definition instructions_text :: "pystr" where
  \<comment> \<open>line 181\<close>
  "instructions_text =
     [0x627, 0x639, 0x62A, 0x645, 0x62F, 0x20, 0x639, 0x644, 0x649, 0x20, 0x627, 0x644, 0x633, 0x64A,
      0x627, 0x642, 0x20, 0x623, 0x639, 0x644, 0x627, 0x647, 0x20, 0x644, 0x644, 0x631, 0x62F, 0x20,
      0x628, 0x630, 0x643, 0x627, 0x621, 0x2E, 0x20, 0x644, 0x627, 0x20, 0x62A, 0x643, 0x631, 0x631,
      0x20, 0x646, 0x641, 0x633, 0x20, 0x627, 0x644, 0x631, 0x62F, 0x648, 0x62F, 0x20, 0x644, 0x644,
      0x623, 0x633, 0x626, 0x644, 0x629, 0x20, 0x627, 0x644, 0x645, 0x62A, 0x634, 0x627, 0x628, 0x647,
      0x629, 0x20, 0x2D, 0x20, 0x646, 0x648, 0x639, 0x20, 0x641, 0x64A, 0x20, 0x625, 0x62C, 0x627,
      0x628, 0x627, 0x62A, 0x643, 0x20, 0x648, 0x627, 0x631, 0x628, 0x637, 0x20, 0x645, 0x639, 0x20,
      0x627, 0x644, 0x645, 0x62D, 0x627, 0x62F, 0x62B, 0x627, 0x62A, 0x20, 0x627, 0x644, 0x633, 0x627,
      0x628, 0x642, 0x629, 0x2E, 0x20, 0x625, 0x630, 0x627, 0x20, 0x633, 0x623, 0x644, 0x20, 0x646,
      0x641, 0x633, 0x20, 0x627, 0x644, 0x633, 0x624, 0x627, 0x644, 0x20, 0x645, 0x631, 0x629, 0x20,
      0x62B, 0x627, 0x646, 0x64A, 0x629, 0x60C, 0x20, 0x627, 0x639, 0x631, 0x641, 0x20, 0x625, 0x646,
      0x647, 0x20, 0x64A, 0x631, 0x64A, 0x62F, 0x20, 0x62A, 0x641, 0x635, 0x64A, 0x644, 0x20, 0x623,
      0x643, 0x62B, 0x631, 0x20, 0x623, 0x648, 0x20, 0x632, 0x627, 0x648, 0x64A, 0x629, 0x20, 0x645,
      0x62E, 0x62A, 0x644, 0x641, 0x629, 0x2E, 0xA]"

definition new_message_header :: "pystr" where
  \<comment> \<open>line 182\<close>
  "new_message_header =
     [0x3D, 0x3D, 0x3D, 0x20, 0x627, 0x644, 0x631, 0x633, 0x627, 0x644, 0x629, 0x20, 0x627, 0x644,
      0x62C, 0x62F, 0x64A, 0x62F, 0x629, 0x20, 0x3D, 0x3D, 0x3D, 0xA]"

definition total_label :: "pystr" where
  \<comment> \<open>get_user_patterns, line 287\<close>
  "total_label =
     [0x639, 0x62F, 0x62F, 0x20, 0x627, 0x644, 0x631, 0x633, 0x627, 0x626, 0x644, 0x20, 0x627, 0x644,
      0x643, 0x644, 0x64A, 0x3A, 0x20]"

definition topics_label :: "pystr" where
  \<comment> \<open>line 292\<close>
  "topics_label =
     [0x627, 0x644, 0x645, 0x648, 0x627, 0x636, 0x64A, 0x639, 0x20, 0x627, 0x644, 0x645, 0x641, 0x636,
      0x644, 0x629, 0x3A, 0x20]"

definition style_label :: "pystr" where
  \<comment> \<open>line 295\<close>
  "style_label =
     [0x646, 0x645, 0x637, 0x20, 0x627, 0x644, 0x62A, 0x648, 0x627, 0x635, 0x644, 0x3A, 0x20]"

definition repeated_label :: "pystr" where
  \<comment> \<open>analyze_conversation_patterns, line 316\<close>
  "repeated_label =
     [0x623, 0x633, 0x626, 0x644, 0x629, 0x20, 0x645, 0x62A, 0x643, 0x631, 0x631, 0x629, 0x3A, 0x20]"

definition progressive_text :: "pystr" where
  \<comment> \<open>line 322\<close>
  "progressive_text =
     [0x627, 0x644, 0x645, 0x62D, 0x627, 0x62F, 0x62B, 0x629, 0x20, 0x645, 0x62A, 0x62F, 0x631, 0x62C,
      0x629, 0x20, 0x648, 0x645, 0x62A, 0x631, 0x627, 0x628, 0x637, 0x629]"

definition varied_text :: "pystr" where
  \<comment> \<open>line 324\<close>
  "varied_text =
     [0x623, 0x633, 0x626, 0x644, 0x629, 0x20, 0x645, 0x62A, 0x646, 0x648, 0x639, 0x629, 0x20, 0x63A,
      0x64A, 0x631, 0x20, 0x645, 0x62A, 0x631, 0x627, 0x628, 0x637, 0x629]"

text \<open>The three lines every non-empty context ends with (lines 180-182).\<close>

definition instruction_suffix :: pystr where
  "instruction_suffix = instructions_header @ instructions_text @ new_message_header"

text \<open>
  \<open>get_user_patterns\<close> (lines 278-297). \<open>sorted(..., reverse=True)\<close> is stable: topics
  with equal counts keep the order of the dictionary, as a stable sort on the negated
  count does.
\<close>

definition get_user_patterns :: "bot \<Rightarrow> int \<Rightarrow> pystr" where
  "get_user_patterns b user_id =
     (case long_term_memory b user_id of
        None \<Rightarrow> []
      | Some memory \<Rightarrow>
          (let p1 = (if total_messages memory > 5
                     then [total_label @ str_int (total_messages memory)] else []);
               top_topics = take 3 (sort_key (\<lambda>(topic, count). - count)
                                      (frequent_topics memory));
               topics_str = join (asc '', '')
                  (map (\<lambda>(topic, count). topic @ asc '' ('' @ str_int count @ asc '')'')
                     top_topics);
               p2 = (if frequent_topics memory \<noteq> [] then [topics_label @ topics_str] else []);
               p3 = (if communication_style memory \<noteq> []
                     then [style_label @ join (asc '', '') (communication_style memory)]
                     else [])
           in join (asc '' | '') (p1 @ p2 @ p3)))"

text \<open>\<open>analyze_conversation_patterns\<close> (lines 299-326).\<close>

definition analyze_conversation_patterns :: "(pystr \<Rightarrow> pystr) \<Rightarrow> bot \<Rightarrow> int \<Rightarrow> pystr" where
  "analyze_conversation_patterns lower b user_id =
     (case (long_term_memory b user_id, conversations b user_id) of
        (Some memory, Some (x # xs)) \<Rightarrow>
          (let history = x # xs;
               a1 = (if length (question_history memory) > 1 then
                       (let recent_questions = last_n 5 (question_history memory);
                            question_counts =
                              foldl (\<lambda>d q. dict_incr d (q_question q)) [] recent_questions;
                            repeated = map fst (filter (\<lambda>(q, count). count > 1) question_counts)
                        in if repeated \<noteq> []
                           then [repeated_label @ join (asc '', '') (take 2 repeated)] else [])
                     else []);
               a2 = (if length history \<ge> 3 then
                       (if has_conversation_progression lower (map ex_user (last_n 3 history))
                        then [progressive_text] else [varied_text])
                     else [])
           in join (asc '' | '') (a1 @ a2))
      | _ \<Rightarrow> [])"

text \<open>One numbered exchange of the context (lines 166-168).\<close>

definition render_exchange :: "nat \<times> exchange \<Rightarrow> pystr" where
  "render_exchange p =
     (case p of (i, exchange) \<Rightarrow>
        asc ''#'' @ str_int (int i) @ user_label @ ex_user exchange @ [0xA] @
        bot_label @ ex_assistant exchange @ [0xA, 0xA])"

text \<open>\<open>get_conversation_context\<close> (lines 156-183).\<close>

definition get_conversation_context :: "(pystr \<Rightarrow> pystr) \<Rightarrow> bot \<Rightarrow> int \<Rightarrow> pystr" where
  "get_conversation_context lower b user_id =
     (case conversations b user_id of
        None \<Rightarrow> []
      | Some [] \<Rightarrow> []
      | Some (x # xs) \<Rightarrow>
          (let recent_exchanges = last_n 8 (x # xs);
               c1 = context_header @ concat (map render_exchange (enumerate 1 recent_exchanges));
               patterns = get_user_patterns b user_id;
               c2 = (if patterns \<noteq> [] then c1 @ patterns_header @ patterns @ [0xA, 0xA] else c1);
               conversation_summary = analyze_conversation_patterns lower b user_id;
               c3 = (if conversation_summary \<noteq> []
                     then c2 @ analysis_header @ conversation_summary @ [0xA, 0xA] else c2)
           in c3 @ instructions_header @ instructions_text @ new_message_header))"

section \<open>Texts and keyword tables of the handlers\<close>

definition unavailable_text :: "pystr" where
  \<comment> \<open>handle_message, line 1537\<close>
  "unavailable_text =
     [0x645, 0x639, 0x630, 0x631, 0x629, 0x60C, 0x20, 0x627, 0x644, 0x628, 0x648, 0x62A, 0x20, 0x645,
      0x648, 0x20, 0x634, 0x63A, 0x627, 0x644, 0x20, 0x647, 0x633, 0x647, 0x2E, 0x20, 0x62C, 0x631,
      0x628, 0x20, 0x645, 0x631, 0x629, 0x20, 0x62B, 0x627, 0x646, 0x64A, 0x629, 0x20, 0x628, 0x627,
      0x62C, 0x631, 0x2E]"

definition activation_phrases :: "pystr list" where
  \<comment> \<open>line 1550\<close>
  "activation_phrases =
     [[0x633, 0x648, 0x644, 0x641],
      [0x633, 0x648, 0x644, 0x641, 0x20, 0x64A, 0x627, 0x20, 0x628, 0x648, 0x62A],
      [0x62A, 0x643, 0x644, 0x645],
      [0x631, 0x62F],
      [0x641, 0x639, 0x644, 0x20, 0x627, 0x644, 0x628, 0x648, 0x62A]]"

definition activated_text :: "pystr" where
  \<comment> \<open>line 1553\<close>
  "activated_text =
     [0x1F50A, 0x20, 0x62A, 0x645, 0x627, 0x645, 0x21, 0x20, 0x627, 0x644, 0x628, 0x648, 0x62A, 0x20,
      0x635, 0x627, 0x631, 0x20, 0x641, 0x639, 0x627, 0x644, 0x20, 0x648, 0x631, 0x627, 0x62D, 0x20,
      0x623, 0x631, 0x62F, 0x20, 0x639, 0x644, 0x649, 0x20, 0x643, 0x644, 0x627, 0x645, 0x643, 0x645,
      0x2E]"

definition groups_only_text :: "pystr" where
  \<comment> \<open>lines 1557 and 1567\<close>
  "groups_only_text =
     [0x1F4AC, 0x20, 0x647, 0x630, 0x627, 0x20, 0x627, 0x644, 0x623, 0x645, 0x631, 0x20, 0x645, 0x62E,
      0x635, 0x635, 0x20, 0x644, 0x644, 0x645, 0x62C, 0x645, 0x648, 0x639, 0x627, 0x62A, 0x20, 0x641,
      0x642, 0x637, 0x2E, 0x20, 0x628, 0x627, 0x644, 0x645, 0x62D, 0x627, 0x62F, 0x62B, 0x627, 0x62A,
      0x20, 0x627, 0x644, 0x62E, 0x627, 0x635, 0x629, 0x20, 0x623, 0x646, 0x64A, 0x20, 0x623, 0x631,
      0x62F, 0x20, 0x62F, 0x627, 0x626, 0x645, 0x627, 0x64B, 0x2E]"

definition deactivation_phrases :: "pystr list" where
  \<comment> \<open>line 1560\<close>
  "deactivation_phrases =
     [[0x627, 0x646, 0x62C, 0x628],
      [0x627, 0x633, 0x643, 0x62A],
      [0x627, 0x646, 0x62C, 0x628, 0x20, 0x64A, 0x627, 0x20, 0x628, 0x648, 0x62A],
      [0x644, 0x627, 0x20, 0x62A, 0x631, 0x62F],
      [0x639, 0x637, 0x644, 0x20, 0x627, 0x644, 0x628, 0x648, 0x62A],
      [0x62A, 0x648, 0x642, 0x641]]"

definition silenced_text :: "pystr" where
  \<comment> \<open>line 1563\<close>
  "silenced_text =
     [0x1F507, 0x20, 0x62A, 0x645, 0x627, 0x645, 0x21, 0x20, 0x627, 0x644, 0x628, 0x648, 0x62A, 0x20,
      0x635, 0x627, 0x631, 0x20, 0x635, 0x627, 0x645, 0x62A, 0x20, 0x648, 0x645, 0x631, 0x627, 0x62D,
      0x20, 0x623, 0x631, 0x62F, 0x20, 0x639, 0x644, 0x649, 0x20, 0x623, 0x64A, 0x20, 0x643, 0x644,
      0x627, 0x645, 0x2E]"

definition image_request_keywords :: "pystr list" where
  \<comment> \<open>_is_image_request, lines 1432-1437\<close>
  "image_request_keywords =
     [[0x627, 0x631, 0x633, 0x645, 0x20, 0x644, 0x64A],
      [0x627, 0x635, 0x646, 0x639, 0x20, 0x635, 0x648, 0x631, 0x629],
      [0x633, 0x648, 0x64A, 0x20, 0x635, 0x648, 0x631, 0x629],
      [0x627, 0x639, 0x645, 0x644, 0x20, 0x635, 0x648, 0x631, 0x629],
      [0x627, 0x646, 0x634, 0x626, 0x20, 0x635, 0x648, 0x631, 0x629],
      [0x627, 0x631, 0x64A, 0x62F, 0x20, 0x635, 0x648, 0x631, 0x629],
      [0x627, 0x628, 0x64A, 0x20, 0x635, 0x648, 0x631, 0x629],
      [0x627, 0x635, 0x646, 0x639, 0x644, 0x64A],
      [0x633, 0x648, 0x644, 0x64A, 0x20, 0x635, 0x648, 0x631, 0x629],
      [0x627, 0x631, 0x633, 0x645],
      asc ''draw me'',
      asc ''create image'',
      asc ''make image'',
      asc ''generate image'',
      [0x627, 0x639, 0x645, 0x644, 0x20, 0x644, 0x64A],
      [0x633, 0x648, 0x64A, 0x20, 0x644, 0x64A],
      [0x627, 0x635, 0x646, 0x639, 0x20, 0x644, 0x64A]]"

definition exclude_keywords :: "pystr list" where
  \<comment> \<open>lines 1440-1444\<close>
  "exclude_keywords =
     [[0x645, 0x64A, 0x632, 0x629],
      [0x62E, 0x627, 0x635, 0x64A, 0x629],
      [0x62A, 0x645, 0x20, 0x625, 0x636, 0x627, 0x641, 0x629],
      [0x62C, 0x62F, 0x64A, 0x62F, 0x629, 0x20, 0x645, 0x636, 0x627, 0x641, 0x629],
      [0x644, 0x644, 0x628, 0x648, 0x62A],
      [0x623, 0x645, 0x62B, 0x644, 0x629, 0x20, 0x639, 0x644, 0x649, 0x20, 0x627, 0x644, 0x627, 0x633,
       0x62A, 0x62E, 0x62F, 0x627, 0x645],
      [0x628, 0x631, 0x645, 0x62C, 0x629, 0x20, 0x648, 0x62A, 0x637, 0x648, 0x64A, 0x631],
      [0x627, 0x644, 0x623, 0x648, 0x627, 0x645, 0x631, 0x20, 0x627, 0x644, 0x645, 0x648, 0x62C, 0x648,
       0x62F, 0x629],
      asc ''feature'',
      asc ''added'',
      asc ''examples'',
      asc ''commands'']"

definition photo_caption :: "pystr" where
  \<comment> \<open>line 1688, after the mode indicator\<close>
  "photo_caption =
     [0x20, 0x647, 0x627, 0x64A, 0x20, 0x627, 0x644, 0x635, 0x648, 0x631, 0x629, 0x20, 0x627, 0x644,
      0x64A, 0x20, 0x637, 0x644, 0x628, 0x62A, 0x647, 0x627, 0x21, 0x20, 0x634, 0x644, 0x648, 0x646,
      0x647, 0x627, 0x61F]"

definition image_mode_emoji :: "pystr" where
  \<comment> \<open>line 1682\<close>
  "image_mode_emoji =
     [0x1F3A8]"

definition no_key_text :: "pystr" where
  \<comment> \<open>lines 1701-1704\<close>
  "no_key_text =
     [0x645, 0x639, 0x630, 0x631, 0x629, 0x60C, 0x20, 0x625, 0x646, 0x634, 0x627, 0x621, 0x20, 0x627,
      0x644, 0x635, 0x648, 0x631, 0x20, 0x63A, 0x64A, 0x631, 0x20, 0x645, 0x62A, 0x627, 0x62D, 0x20,
      0x62D, 0x627, 0x644, 0x64A, 0x627, 0x64B, 0x20, 0x2D, 0x20, 0x64A, 0x62D, 0x62A, 0x627, 0x62C,
      0x20, 0x645, 0x641, 0x62A, 0x627, 0x62D, 0x20, 0x47, 0x65, 0x6D, 0x69, 0x6E, 0x69, 0x20,
      0x41, 0x50, 0x49, 0x2E, 0xA, 0xA, 0x62C, 0x631, 0x628, 0x20, 0x628, 0x62F, 0x644, 0x627,
      0x64B, 0x20, 0x645, 0x646, 0x20, 0x630, 0x644, 0x643, 0x3A, 0xA, 0x1F3AD, 0x20, 0x2F, 0x69,
      0x6D, 0x61, 0x67, 0x69, 0x6E, 0x65, 0x5F, 0x70, 0x72, 0x6F, 0x6D, 0x70, 0x74, 0x20,
      0x2D, 0x20, 0x648, 0x635, 0x641, 0x20, 0x625, 0x628, 0x62F, 0x627, 0x639, 0x64A, 0x20, 0x645,
      0x639, 0x20, 0x646, 0x635, 0x20, 0x625, 0x646, 0x62C, 0x644, 0x64A, 0x632, 0x64A, 0x20, 0x642,
      0x627, 0x628, 0x644, 0x20, 0x644, 0x644, 0x646, 0x633, 0x62E, 0xA, 0x1F4AC, 0x20, 0x2F, 0x63,
      0x68, 0x61, 0x74, 0x20, 0x2D, 0x20, 0x627, 0x644, 0x645, 0x62D, 0x627, 0x62F, 0x62B, 0x629,
      0x20, 0x627, 0x644, 0x639, 0x627, 0x62F, 0x64A, 0x629]"

definition image_failed_text :: "pystr" where
  \<comment> \<open>line 1708\<close>
  "image_failed_text =
     [0x645, 0x639, 0x630, 0x631, 0x629, 0x60C, 0x20, 0x645, 0x627, 0x20, 0x643, 0x62F, 0x631, 0x62A,
      0x20, 0x627, 0x633, 0x648, 0x64A, 0x20, 0x627, 0x644, 0x635, 0x648, 0x631, 0x629, 0x20, 0x647,
      0x633, 0x647, 0x2E, 0x20, 0x62C, 0x631, 0x628, 0x20, 0x645, 0x631, 0x629, 0x20, 0x62B, 0x627,
      0x646, 0x64A, 0x629, 0x20, 0x627, 0x648, 0x20, 0x627, 0x648, 0x635, 0x641, 0x20, 0x627, 0x644,
      0x635, 0x648, 0x631, 0x629, 0x20, 0x628, 0x637, 0x631, 0x64A, 0x642, 0x629, 0x20, 0x62B, 0x627,
      0x646, 0x64A, 0x629, 0x2E]"

definition image_error_text :: "pystr" where
  \<comment> \<open>line 1715\<close>
  "image_error_text =
     [0x645, 0x639, 0x630, 0x631, 0x629, 0x60C, 0x20, 0x635, 0x627, 0x631, 0x20, 0x62E, 0x637, 0x623,
      0x20, 0x648, 0x642, 0x62A, 0x20, 0x639, 0x645, 0x644, 0x20, 0x627, 0x644, 0x635, 0x648, 0x631,
      0x629, 0x2E, 0x20, 0x62C, 0x631, 0x628, 0x20, 0x645, 0x631, 0x629, 0x20, 0x62B, 0x627, 0x646,
      0x64A, 0x629, 0x2E]"

definition memory_cleared_text :: "pystr" where
  \<comment> \<open>clear_memory_command, lines 458-460\<close>
  "memory_cleared_text =
     [0x1F9E0, 0x20, 0x62A, 0x645, 0x20, 0x645, 0x633, 0x62D, 0x20, 0x630, 0x627, 0x643, 0x631, 0x629,
      0x20, 0x627, 0x644, 0x645, 0x62D, 0x627, 0x62F, 0x62B, 0x629, 0x20, 0x628, 0x646, 0x62C, 0x627,
      0x62D, 0x21, 0xA, 0xA, 0x627, 0x644, 0x628, 0x648, 0x62A, 0x20, 0x647, 0x633, 0x647, 0x20,
      0x646, 0x633, 0x649, 0x20, 0x62C, 0x645, 0x64A, 0x639, 0x20, 0x627, 0x644, 0x645, 0x62D, 0x627,
      0x62F, 0x62B, 0x627, 0x62A, 0x20, 0x627, 0x644, 0x633, 0x627, 0x628, 0x642, 0x629, 0x20, 0x648,
      0x64A, 0x627, 0x643, 0x2E, 0xA, 0x627, 0x644, 0x645, 0x62D, 0x627, 0x62F, 0x62B, 0x629, 0x20,
      0x627, 0x644, 0x62C, 0x627, 0x64A, 0x629, 0x20, 0x631, 0x627, 0x62D, 0x20, 0x62A, 0x628, 0x62F,
      0x623, 0x20, 0x645, 0x646, 0x20, 0x627, 0x644, 0x635, 0x641, 0x631, 0x2E, 0x20, 0x1F504]"

definition no_memory_text :: "pystr" where
  \<comment> \<open>lines 465-467\<close>
  "no_memory_text =
     [0x1F9E0, 0x20, 0x645, 0x627, 0x20, 0x627, 0x643, 0x648, 0x20, 0x630, 0x627, 0x643, 0x631, 0x629,
      0x20, 0x645, 0x62D, 0x627, 0x62F, 0x62B, 0x629, 0x20, 0x644, 0x62A, 0x645, 0x633, 0x62D, 0x647,
      0x627, 0x21, 0xA, 0xA, 0x627, 0x644, 0x628, 0x648, 0x62A, 0x20, 0x645, 0x627, 0x20, 0x639,
      0x646, 0x62F, 0x647, 0x20, 0x623, 0x64A, 0x20, 0x645, 0x62D, 0x627, 0x62F, 0x62B, 0x627, 0x62A,
      0x20, 0x645, 0x62D, 0x641, 0x648, 0x638, 0x629, 0x20, 0x648, 0x64A, 0x627, 0x643, 0x2E, 0xA,
      0x627, 0x628, 0x62F, 0x623, 0x20, 0x645, 0x62D, 0x627, 0x62F, 0x62B, 0x629, 0x20, 0x62C, 0x62F,
      0x64A, 0x62F, 0x629, 0x20, 0x648, 0x631, 0x627, 0x62D, 0x20, 0x64A, 0x62A, 0x630, 0x643, 0x631,
      0x20, 0x643, 0x644, 0x627, 0x645, 0x643, 0x2E, 0x20, 0x1F4AC]"

section \<open>Image generation\<close>

text \<open>
  The files the handlers see: the directories that exist and the bytes of the regular
  files, by path.
\<close>

record filesystem =
  directories :: "pystr set"
  files :: "pystr \<rightharpoonup> nat list"

text \<open>
  \<open>MultiAIClient.generate_image\<close> (multi_ai_client.py, lines 219-268). The
  \<open>return False\<close> of line 241 comes before every statement that reads a response or
  opens the target path, so both ways through the function return \<open>False\<close> and leave
  the files as they are; nothing in the two ways raises.
\<close>

definition generate_image :: "ai_client \<Rightarrow> pystr \<Rightarrow> pystr \<Rightarrow> filesystem \<Rightarrow> bool \<times> filesystem" where
  "generate_image client prompt image_path fs =
     (if \<not> gemini_client client then (False, fs) else (False, fs))"

text \<open>
  The calls of the messaging platform made by \<open>_handle_image_request\<close> may raise; each
  flag says whether the call returns. An exception inside the handler ends in the
  \<open>except\<close> branch of lines 1712-1716.
\<close>

record platform =
  chat_action_ok :: bool
  processing_ok :: bool
  photo_ok :: bool
  edit_ok :: bool

datatype image_outcome = Photo_sent pystr | Notice pystr | Error_reply pystr

text \<open>
  \<open>_handle_image_request\<close> (bot_handlers.py, lines 1655-1716); \<open>image_filename\<close> is
  the fresh name of line 1669 and \<open>in_image_mode\<close> the test of line 1682.
\<close>

definition handle_image_request ::
  "ai_client \<Rightarrow> bool \<Rightarrow> platform \<Rightarrow> filesystem \<Rightarrow> pystr \<Rightarrow> pystr
     \<Rightarrow> filesystem \<times> image_outcome" where
  "handle_image_request client in_image_mode pf fs user_message image_filename =
     (if \<not> chat_action_ok pf then (fs, Error_reply image_error_text)
      else
        (let fs1 = (if asc ''images'' \<in> directories fs \<or> asc ''images'' \<in> dom (files fs)
                    then fs else fs \<lparr> directories := insert (asc ''images'') (directories fs) \<rparr>)
         in if \<not> processing_ok pf then (fs1, Error_reply image_error_text)
            else
              (case generate_image client user_message image_filename fs1 of
                 (success, fs2) \<Rightarrow>
                   if success \<and>
                      (image_filename \<in> dom (files fs2) \<or> image_filename \<in> directories fs2)
                   then
                     (if photo_ok pf
                      then (fs2 \<lparr> files := (files fs2)(image_filename := None) \<rparr>,
                            Photo_sent ((if in_image_mode then image_mode_emoji else []) @
                                        photo_caption))
                      else (fs2, Error_reply image_error_text))
                   else if \<not> edit_ok pf then (fs2, Error_reply image_error_text)
                   else if \<not> gemini_client client then (fs2, Notice no_key_text)
                   else (fs2, Notice image_failed_text))))"

section \<open>Incoming text messages\<close>

definition add_user :: "bot \<Rightarrow> int \<Rightarrow> bot" where
  "add_user b user_id = b \<lparr> users := insert user_id (users b) \<rparr>"

definition set_group_status :: "bot \<Rightarrow> int \<Rightarrow> bool \<Rightarrow> bot" where
  "set_group_status b chat_id active =
     b \<lparr> group_status := (group_status b)(chat_id \<mapsto> active) \<rparr>"

text \<open>\<open>is_group_active\<close> (lines 100-104).\<close>

definition is_group_active :: "bot \<Rightarrow> int \<Rightarrow> bool" where
  "is_group_active b chat_id =
     (if chat_id > 0 then True
      else (case group_status b chat_id of None \<Rightarrow> True | Some active \<Rightarrow> active))"

definition get_user_mode :: "bot \<Rightarrow> int \<Rightarrow> mode" where
  "get_user_mode b user_id = (case user_modes b user_id of None \<Rightarrow> Chat | Some m \<Rightarrow> m)"

definition is_image_request :: "(pystr \<Rightarrow> pystr) \<Rightarrow> pystr \<Rightarrow> bool" where
  "is_image_request lower message =
     (let message_lower = lower message in
      if any_in exclude_keywords message_lower then False
      else any_in image_request_keywords message_lower)"

text \<open>
  One incoming text message, and what the surroundings supply while it is handled: the
  behaviour of the platform, the fresh file name, and the outcome of the chat turn. The
  chat turn (lines 1595-1653) asks the providers, replies, and then records the exchange
  with \<open>add_message_to_conversation\<close>; \<open>chat_turn\<close> is the response it records with
  the two clock readings, or \<open>None\<close> when an exception ended the turn before the
  exchange was recorded. The text of the chat reply itself is not modelled.
\<close>

record update =
  message_text :: "pystr option"
  effective_user :: int
  effective_chat :: int

record surroundings =
  platform :: platform
  image_filename :: pystr
  chat_turn :: "(pystr \<times> real \<times> real) option"

datatype outcome =
    Replied pystr
  | Silent
  | Image_result image_outcome
  | Imagine_result
  | Chat_result

text \<open>
  The phrase the two trigger tests of lines 1550 and 1560 look up:
  \<open>user_message.strip().lower()\<close>.
\<close>

definition trigger_phrase :: "(pystr \<Rightarrow> pystr) \<Rightarrow> update \<Rightarrow> pystr" where
  "trigger_phrase lower upd =
     lower (strip (case message_text upd of None \<Rightarrow> [] | Some t \<Rightarrow> t))"

text \<open>
  \<open>handle_message\<close> (lines 1534-1653). The one-shot handler of the imagine-prompt mode
  sets the mode of the user back to chat whatever else happens in it (lines 1722 and 1765).
\<close>

definition handle_message ::
  "(pystr \<Rightarrow> pystr) \<Rightarrow> bot \<times> filesystem \<Rightarrow> update \<Rightarrow> surroundings
     \<Rightarrow> (bot \<times> filesystem) \<times> outcome" where
  "handle_message lower w upd env =
     (case w of (b, fs) \<Rightarrow>
     (case ai_client b of
        None \<Rightarrow> ((b, fs), Replied unavailable_text)
      | Some client \<Rightarrow>
          (let user_message = (case message_text upd of None \<Rightarrow> [] | Some t \<Rightarrow> t);
               user_id = effective_user upd;
               chat_id = effective_chat upd;
               b1 = add_user b user_id
           in if trigger_phrase lower upd \<in> set activation_phrases then
                (if chat_id < 0
                 then ((set_group_status b1 chat_id True, fs), Replied activated_text)
                 else ((b1, fs), Replied groups_only_text))
              else if trigger_phrase lower upd \<in> set deactivation_phrases then
                (if chat_id < 0
                 then ((set_group_status b1 chat_id False, fs), Replied silenced_text)
                 else ((b1, fs), Replied groups_only_text))
              else if \<not> is_group_active b1 chat_id then ((b1, fs), Silent)
              else if get_user_mode b1 user_id = Image then
                (case handle_image_request client True (platform env) fs user_message
                        (image_filename env) of
                   (fs', r) \<Rightarrow> ((b1, fs'), Image_result r))
              else if get_user_mode b1 user_id = Imagine_prompt then
                ((b1 \<lparr> user_modes := (user_modes b1)(user_id \<mapsto> Chat) \<rparr>, fs), Imagine_result)
              else if is_image_request lower user_message then
                (case handle_image_request client False (platform env) fs user_message
                        (image_filename env) of
                   (fs', r) \<Rightarrow> ((b1, fs'), Image_result r))
              else
                (case chat_turn env of
                   None \<Rightarrow> ((b1, fs), Chat_result)
                 | Some (response, t1, t2) \<Rightarrow>
                     ((add_message_to_conversation lower b1 user_id user_message response t1 t2,
                       fs), Chat_result)))))"

text \<open>The outcomes of a sequence of text messages, handled one after the other.\<close>

fun serve ::
  "(pystr \<Rightarrow> pystr) \<Rightarrow> bot \<times> filesystem \<Rightarrow> (update \<times> surroundings) list \<Rightarrow> outcome list" where
  "serve lower w [] = []"
| "serve lower w (m # ms) =
     snd (handle_message lower w (fst m) (snd m)) #
     serve lower (fst (handle_message lower w (fst m) (snd m))) ms"

text \<open>\<open>clear_memory_command\<close> (lines 449-469): the new stores and the reply.\<close>

definition clear_memory_command :: "bot \<Rightarrow> int \<Rightarrow> bot \<times> pystr" where
  "clear_memory_command b user_id =
     (case conversations b user_id of
        Some (x # xs) \<Rightarrow> (clear_conversation b user_id, memory_cleared_text)
      | _ \<Rightarrow> (b, no_memory_text))"

text \<open>The stores after a sequence of recorded exchanges
  \<open>(user_id, user_message, bot_response, t1, t2)\<close>.\<close>

definition record_all ::
  "(pystr \<Rightarrow> pystr) \<Rightarrow> bot \<Rightarrow> (int \<times> pystr \<times> pystr \<times> real \<times> real) list \<Rightarrow> bot" where
  "record_all lower b calls =
     foldl (\<lambda>b (user_id, user_message, bot_response, t1, t2).
              add_message_to_conversation lower b user_id user_message bot_response t1 t2)
       b calls"

section \<open>The response sanitizer\<close>

text \<open>
  \<open>re.sub(r'`{2,}', '`', text)\<close>: every run of two or more backticks (code point 0x60)
  becomes one backtick; \<open>after_tick\<close> says that the character before was a backtick.
\<close>

fun collapse_backticks :: "bool \<Rightarrow> pystr \<Rightarrow> pystr" where
  "collapse_backticks after_tick [] = []"
| "collapse_backticks after_tick (c # cs) =
     (if c = 0x60 then
        (if after_tick then collapse_backticks True cs else c # collapse_backticks True cs)
      else c # collapse_backticks False cs)"

text \<open>\<open>text[:i] + text[i+1:]\<close> for \<open>i = text.rfind(c)\<close>, when \<open>c\<close> occurs.\<close>

definition remove_last :: "nat \<Rightarrow> pystr \<Rightarrow> pystr" where
  "remove_last c s = rev (remove1 c (rev s))"

text \<open>
  The pattern of line 478, \<open>\[([^\]]*)\]\([^\)]*$\<close>, tried at the start of \<open>s\<close>: an
  opening bracket (0x5B), the display text up to the first closing bracket (0x5D), an
  opening parenthesis (0x28) right after it, and no closing parenthesis (0x29) from there
  to the end of the string. The result is the display text, the group the match is
  replaced with.
\<close>

definition link_display :: "pystr \<Rightarrow> pystr option" where
  "link_display s =
     (case s of
        [] \<Rightarrow> None
      | c # cs \<Rightarrow>
          if c \<noteq> 0x5B then None
          else (case dropWhile (\<lambda>x. x \<noteq> 0x5D) cs of
                  r1 # r2 # url \<Rightarrow>
                    if r2 = 0x28 \<and> 0x29 \<notin> set url
                    then Some (takeWhile (\<lambda>x. x \<noteq> 0x5D) cs) else None
                | _ \<Rightarrow> None))"

text \<open>\<open>re.sub\<close> with that pattern: the leftmost match runs to the end of the string
  and is replaced with its display text.\<close>

fun fix_broken_links :: "pystr \<Rightarrow> pystr" where
  "fix_broken_links [] = []"
| "fix_broken_links (c # cs) =
     (case link_display (c # cs) of Some d \<Rightarrow> d | None \<Rightarrow> c # fix_broken_links cs)"

text \<open>\<open>_clean_response_text\<close> (multi_ai_client.py, lines 449-480); 0x2A is the asterisk
  and 0x5F the underscore.\<close>

definition clean_response_text :: "pystr \<Rightarrow> pystr" where
  "clean_response_text text =
     (if text = [] then text
      else
        (let t1 = collapse_backticks False text;
             t2 = (if odd (count_char 0x60 t1) then remove_last 0x60 t1 else t1);
             t3 = (if odd (count_char 0x2A t2) then remove_char 0x2A t2 else t2);
             t4 = (if odd (count_char 0x5F t3) then remove_char 0x5F t3 else t3)
         in strip (fix_broken_links t4)))"

section \<open>Broadcasts\<close>

definition report_head :: "pystr" where
  \<comment> \<open>send_targeted_broadcast, line 1187\<close>
  "report_head =
     [0x2705, 0x20, 0x62A, 0x645, 0x20, 0x625, 0x631, 0x633, 0x627, 0x644, 0x20, 0x627, 0x644, 0x628,
      0x62B, 0x20, 0x627, 0x644, 0x645, 0x62D, 0x62F, 0x62F, 0x21, 0xA, 0xA, 0x1F4CA, 0x20, 0x627,
      0x644, 0x625, 0x62D, 0x635, 0x627, 0x626, 0x64A, 0x627, 0x62A, 0x3A, 0xA]"

definition report_sent :: "pystr" where
  \<comment> \<open>line 1188\<close>
  "report_sent =
     [0x2022, 0x20, 0x62A, 0x645, 0x20, 0x627, 0x644, 0x625, 0x631, 0x633, 0x627, 0x644, 0x3A, 0x20]"

definition report_failed :: "pystr" where
  \<comment> \<open>line 1189\<close>
  "report_failed =
     [0x2022, 0x20, 0x641, 0x634, 0x644, 0x20, 0x627, 0x644, 0x625, 0x631, 0x633, 0x627, 0x644, 0x3A,
      0x20]"

definition report_not_found :: "pystr" where
  \<comment> \<open>line 1191\<close>
  "report_not_found =
     [0x2022, 0x20, 0x645, 0x633, 0x62A, 0x62E, 0x62F, 0x645, 0x64A, 0x646, 0x20, 0x63A, 0x64A, 0x631,
      0x20, 0x645, 0x633, 0x62C, 0x644, 0x64A, 0x646, 0x3A, 0x20]"

definition report_total :: "pystr" where
  \<comment> \<open>line 1192\<close>
  "report_total =
     [0x2022, 0x20, 0x625, 0x62C, 0x645, 0x627, 0x644, 0x64A, 0x20, 0x627, 0x644, 0x645, 0x62D, 0x627,
      0x648, 0x644, 0x627, 0x62A, 0x3A, 0x20]"

text \<open>
  What the platform answers when a message is sent to a recipient: it is delivered, or
  the call raises an exception with the given text.
\<close>

datatype delivery = Delivered | Failed pystr

text \<open>The test of lines 1177 and 1264 on the text of the exception.\<close>

definition is_unreachable :: "(pystr \<Rightarrow> pystr) \<Rightarrow> pystr \<Rightarrow> bool" where
  "is_unreachable lower e \<longleftrightarrow>
     py_in (asc ''bot was blocked'') (lower e) \<or> py_in (asc ''chat not found'') (lower e)"

record tally =
  sent_count :: nat
  failed_count :: nat
  not_found_count :: nat

definition no_tally :: tally where
  "no_tally = \<lparr> sent_count = 0, failed_count = 0, not_found_count = 0 \<rparr>"

text \<open>The loop of \<open>send_targeted_broadcast\<close> (lines 1156-1181) on the set of known
  users and the three counters.\<close>

fun targeted_loop ::
  "(pystr \<Rightarrow> pystr) \<Rightarrow> (int \<Rightarrow> delivery) \<Rightarrow> int list \<Rightarrow> int set \<times> tally \<Rightarrow> int set \<times> tally" where
  "targeted_loop lower send [] acc = acc"
| "targeted_loop lower send (user_id # rest) acc =
     targeted_loop lower send rest
       (case acc of (us, t) \<Rightarrow>
          if user_id \<notin> us then (us, t \<lparr> not_found_count := not_found_count t + 1 \<rparr>)
          else (case send user_id of
                  Delivered \<Rightarrow> (us, t \<lparr> sent_count := sent_count t + 1 \<rparr>)
                | Failed e \<Rightarrow>
                    (if is_unreachable lower e then us - {user_id} else us,
                     t \<lparr> failed_count := failed_count t + 1 \<rparr>)))"

text \<open>The report of lines 1187-1192.\<close>

definition targeted_report :: "tally \<Rightarrow> nat \<Rightarrow> pystr" where
  "targeted_report t attempts =
     report_head @
     report_sent @ str_int (int (sent_count t)) @ [0xA] @
     report_failed @ str_int (int (failed_count t)) @ [0xA] @
     (if not_found_count t > 0
      then report_not_found @ str_int (int (not_found_count t)) @ [0xA] else []) @
     report_total @ str_int (int attempts)"

text \<open>\<open>send_targeted_broadcast\<close> (lines 1142-1196): the stores after the pass, the
  counters and the report.\<close>

definition send_targeted_broadcast ::
  "(pystr \<Rightarrow> pystr) \<Rightarrow> bot \<Rightarrow> (int \<Rightarrow> delivery) \<Rightarrow> int list \<Rightarrow> bot \<times> tally \<times> pystr" where
  "send_targeted_broadcast lower b send target_user_ids =
     (case targeted_loop lower send target_user_ids (users b, no_tally) of
        (us, t) \<Rightarrow> (b \<lparr> users := us \<rparr>, t, targeted_report t (length target_user_ids)))"

text \<open>
  The loop of \<open>send_broadcast\<close> (lines 1249-1268). It runs over a copy of the set of
  known users; \<open>order\<close> is the order in which the copy is iterated.
\<close>

fun broadcast_loop ::
  "(pystr \<Rightarrow> pystr) \<Rightarrow> (int \<Rightarrow> delivery) \<Rightarrow> int list \<Rightarrow> int set \<times> tally \<Rightarrow> int set \<times> tally" where
  "broadcast_loop lower send [] acc = acc"
| "broadcast_loop lower send (user_id # rest) acc =
     broadcast_loop lower send rest
       (case acc of (us, t) \<Rightarrow>
          (case send user_id of
             Delivered \<Rightarrow> (us, t \<lparr> sent_count := sent_count t + 1 \<rparr>)
           | Failed e \<Rightarrow>
               (if is_unreachable lower e then us - {user_id} else us,
                t \<lparr> failed_count := failed_count t + 1 \<rparr>)))"

definition send_broadcast ::
  "(pystr \<Rightarrow> pystr) \<Rightarrow> bot \<Rightarrow> (int \<Rightarrow> delivery) \<Rightarrow> int list \<Rightarrow> bot \<times> tally" where
  "send_broadcast lower b send order =
     (case broadcast_loop lower send order (users b, no_tally) of
        (us, t) \<Rightarrow> (b \<lparr> users := us \<rparr>, t))"

section \<open>The gateway to the providers\<close>

text \<open>
  A call of a provider returns the text of its answer, or no text, or raises an
  exception; of the exception the gateway reads only \<open>str(e)\<close>.
\<close>

datatype provider_call = Returned "pystr option" | Raised pystr

definition processing_error_text :: "pystr" where
  \<comment> \<open>generate_response, line 117\<close>
  "processing_error_text =
     [0x645, 0x639, 0x630, 0x631, 0x629, 0x60C, 0x20, 0x635, 0x627, 0x631, 0x20, 0x62E, 0x637, 0x623,
      0x20, 0x648, 0x642, 0x62A, 0x20, 0x645, 0x639, 0x627, 0x644, 0x62C, 0x629, 0x20, 0x637, 0x644,
      0x628, 0x643, 0x2E, 0x20, 0x62C, 0x631, 0x628, 0x20, 0x645, 0x631, 0x629, 0x20, 0x62B, 0x627,
      0x646, 0x64A, 0x629, 0x20, 0x628, 0x627, 0x62C, 0x631, 0x2E]"

definition car_words :: "pystr list" where
  \<comment> \<open>_fallback_to_gemini, line 179\<close>
  "car_words =
     [[0x633, 0x64A, 0x627, 0x631, 0x627, 0x62A],
      [0x633, 0x64A, 0x627, 0x631, 0x629]]"

definition cars_text :: "pystr" where
  \<comment> \<open>lines 181-187\<close>
  "cars_text =
     [0x627, 0x634, 0x648, 0x641, 0x20, 0x627, 0x646, 0x643, 0x20, 0x62A, 0x633, 0x623, 0x644, 0x20,
      0x639, 0x646, 0x20, 0x627, 0x644, 0x633, 0x64A, 0x627, 0x631, 0x627, 0x62A, 0x21, 0x20, 0x1F697,
      0xA, 0xA, 0x645, 0x645, 0x643, 0x646, 0x20, 0x627, 0x633, 0x627, 0x639, 0x62F, 0x643, 0x20,
      0x628, 0x645, 0x639, 0x644, 0x648, 0x645, 0x627, 0x62A, 0x20, 0x639, 0x646, 0x3A, 0xA, 0x1F527,
      0x20, 0x627, 0x646, 0x648, 0x627, 0x639, 0x20, 0x627, 0x644, 0x633, 0x64A, 0x627, 0x631, 0x627,
      0x62A, 0xA, 0x1F4B0, 0x20, 0x627, 0x633, 0x639, 0x627, 0x631, 0x20, 0x627, 0x644, 0x633, 0x64A,
      0x627, 0x631, 0x627, 0x62A, 0xA, 0x2699, 0xFE0F, 0x20, 0x645, 0x648, 0x627, 0x635, 0x641, 0x627,
      0x62A, 0x20, 0x648, 0x62A, 0x642, 0x64A, 0x64A, 0x645, 0x627, 0x62A, 0xA, 0x1F50D, 0x20, 0x646,
      0x635, 0x627, 0x626, 0x62D, 0x20, 0x644, 0x644, 0x634, 0x631, 0x627, 0x621, 0xA, 0xA, 0x648,
      0x636, 0x62D, 0x644, 0x64A, 0x20, 0x627, 0x643, 0x62B, 0x631, 0x20, 0x634, 0x646, 0x648, 0x20,
      0x62A, 0x62D, 0x62A, 0x627, 0x62C, 0x20, 0x648, 0x631, 0x627, 0x62D, 0x20, 0x627, 0x633, 0x627,
      0x639, 0x62F, 0x643, 0x21]"

definition quiz_words :: "pystr list" where
  \<comment> \<open>line 190\<close>
  "quiz_words =
     [[0x627, 0x62E, 0x62A, 0x628, 0x627, 0x631],
      [0x627, 0x633, 0x62A, 0x637, 0x644, 0x627, 0x639],
      [0x633, 0x624, 0x627, 0x644],
      [0x627, 0x633, 0x62A, 0x641, 0x62A, 0x627, 0x621],
      [0x627, 0x645, 0x62A, 0x62D, 0x627, 0x646]]"

definition quiz_text :: "pystr" where
  \<comment> \<open>lines 192-197\<close>
  "quiz_text =
     [0x623, 0x634, 0x648, 0x641, 0x20, 0x625, 0x646, 0x643, 0x20, 0x62A, 0x631, 0x64A, 0x62F, 0x20,
      0x62A, 0x633, 0x648, 0x64A, 0x20, 0x627, 0x62E, 0x62A, 0x628, 0x627, 0x631, 0x20, 0x623, 0x648,
      0x20, 0x627, 0x633, 0x62A, 0x637, 0x644, 0x627, 0x639, 0x21, 0x20, 0x1F4CA, 0xA, 0xA, 0x627,
      0x633, 0x62A, 0x62E, 0x62F, 0x645, 0x20, 0x647, 0x627, 0x64A, 0x20, 0x627, 0x644, 0x623, 0x648,
      0x627, 0x645, 0x631, 0x3A, 0xA, 0x1F393, 0x20, 0x2F, 0x71, 0x75, 0x69, 0x7A, 0x20, 0x2D,
      0x20, 0x644, 0x644, 0x627, 0x62E, 0x62A, 0x628, 0x627, 0x631, 0x20, 0x627, 0x644, 0x62A, 0x639,
      0x644, 0x64A, 0x645, 0x64A, 0x20, 0x28, 0x633, 0x627, 0x62F, 0x633, 0x20, 0x627, 0x628, 0x62A,
      0x62F, 0x627, 0x626, 0x64A, 0x29, 0xA, 0x1F4CB, 0x20, 0x2F, 0x63, 0x72, 0x65, 0x61, 0x74,
      0x65, 0x5F, 0x70, 0x6F, 0x6C, 0x6C, 0x20, 0x2D, 0x20, 0x644, 0x625, 0x646, 0x634, 0x627,
      0x621, 0x20, 0x627, 0x633, 0x62A, 0x637, 0x644, 0x627, 0x639, 0x20, 0x645, 0x62E, 0x635, 0x635,
      0xA, 0x1F4DA, 0x20, 0x2F, 0x68, 0x65, 0x6C, 0x70, 0x5F, 0x70, 0x6F, 0x6C, 0x6C, 0x20,
      0x2D, 0x20, 0x644, 0x644, 0x645, 0x633, 0x627, 0x639, 0x62F, 0x629, 0x20, 0x648, 0x627, 0x644,
      0x634, 0x631, 0x62D, 0xA, 0xA, 0x645, 0x62B, 0x627, 0x644, 0x3A, 0x20, 0x2F, 0x63, 0x72,
      0x65, 0x61, 0x74, 0x65, 0x5F, 0x70, 0x6F, 0x6C, 0x6C, 0x20, 0x634, 0x646, 0x648, 0x20,
      0x631, 0x623, 0x64A, 0x643, 0x645, 0x20, 0x628, 0x627, 0x644, 0x628, 0x648, 0x62A, 0x61F, 0x2C,
      0x645, 0x645, 0x62A, 0x627, 0x632, 0x2C, 0x62C, 0x64A, 0x62F, 0x2C, 0x64A, 0x62D, 0x62A, 0x627,
      0x62C, 0x20, 0x62A, 0x637, 0x648, 0x64A, 0x631]"

definition help_words :: "pystr list" where
  \<comment> \<open>line 199\<close>
  "help_words =
     [[0x645, 0x633, 0x627, 0x639, 0x62F, 0x629],
      [0x634, 0x644, 0x648, 0x646],
      [0x643, 0x64A, 0x641],
      [0x648, 0x64A, 0x646],
      [0x627, 0x631, 0x64A, 0x62F],
      [0x645, 0x645, 0x643, 0x646]]"

definition help_text :: "pystr" where
  \<comment> \<open>lines 201-207\<close>
  "help_text =
     [0x627, 0x643, 0x64A, 0x62F, 0x20, 0x627, 0x643, 0x62F, 0x631, 0x20, 0x627, 0x633, 0x627, 0x639,
      0x62F, 0x643, 0x21, 0x20, 0x1F4AA, 0xA, 0xA, 0x645, 0x645, 0x643, 0x646, 0x20, 0x627, 0x633,
      0x62A, 0x62E, 0x62F, 0x627, 0x645, 0x3A, 0xA, 0x2753, 0x20, 0x2F, 0x68, 0x65, 0x6C, 0x70,
      0x20, 0x2D, 0x20, 0x644, 0x644, 0x645, 0x633, 0x627, 0x639, 0x62F, 0x629, 0x20, 0x627, 0x644,
      0x634, 0x627, 0x645, 0x644, 0x629, 0xA, 0x1F4AC, 0x20, 0x2F, 0x63, 0x68, 0x61, 0x74, 0x20,
      0x2D, 0x20, 0x644, 0x644, 0x645, 0x62D, 0x627, 0x62F, 0x62B, 0x629, 0x20, 0x627, 0x644, 0x630,
      0x643, 0x64A, 0x629, 0xA, 0x1F3A8, 0x20, 0x2F, 0x69, 0x6D, 0x61, 0x67, 0x65, 0x20, 0x2D,
      0x20, 0x644, 0x625, 0x646, 0x634, 0x627, 0x621, 0x20, 0x627, 0x644, 0x635, 0x648, 0x631, 0xA,
      0x1F4CA, 0x20, 0x2F, 0x63, 0x72, 0x65, 0x61, 0x74, 0x65, 0x5F, 0x70, 0x6F, 0x6C, 0x6C,
      0x20, 0x2D, 0x20, 0x644, 0x644, 0x627, 0x633, 0x62A, 0x637, 0x644, 0x627, 0x639, 0x627, 0x62A,
      0xA, 0xA, 0x627, 0x648, 0x20, 0x627, 0x643, 0x62A, 0x628, 0x644, 0x64A, 0x20, 0x645, 0x628,
      0x627, 0x634, 0x631, 0x629, 0x20, 0x634, 0x62A, 0x631, 0x64A, 0x62F, 0x20, 0x648, 0x627, 0x643,
      0x62F, 0x631, 0x20, 0x627, 0x633, 0x627, 0x639, 0x62F, 0x643, 0x21]"

definition retry_text :: "pystr" where
  \<comment> \<open>lines 212-216\<close>
  "retry_text =
     [0x641, 0x647, 0x645, 0x62A, 0x20, 0x637, 0x644, 0x628, 0x643, 0x20, 0x628, 0x633, 0x20, 0x635,
      0x627, 0x631, 0x20, 0x62E, 0x637, 0x623, 0x20, 0x645, 0x624, 0x642, 0x62A, 0x21, 0x20, 0x1F504,
      0xA, 0xA, 0x62C, 0x631, 0x628, 0x20, 0x645, 0x631, 0x629, 0x20, 0x62B, 0x627, 0x646, 0x64A,
      0x629, 0x20, 0x627, 0x648, 0x20, 0x627, 0x633, 0x62A, 0x62E, 0x62F, 0x645, 0x3A, 0xA, 0x1F4AC,
      0x20, 0x2F, 0x63, 0x68, 0x61, 0x74, 0x20, 0x2D, 0x20, 0x644, 0x644, 0x645, 0x62D, 0x627,
      0x62F, 0x62B, 0x629, 0x20, 0x627, 0x644, 0x639, 0x627, 0x62F, 0x64A, 0x629, 0xA, 0x2753, 0x20,
      0x2F, 0x68, 0x65, 0x6C, 0x70, 0x20, 0x2D, 0x20, 0x644, 0x644, 0x645, 0x633, 0x627, 0x639,
      0x62F, 0x629, 0xA, 0xA, 0x627, 0x643, 0x62A, 0x628, 0x644, 0x64A, 0x20, 0x628, 0x637, 0x631,
      0x64A, 0x642, 0x629, 0x20, 0x645, 0x62E, 0x62A, 0x644, 0x641, 0x629, 0x20, 0x648, 0x627, 0x643,
      0x62F, 0x631, 0x20, 0x627, 0x633, 0x627, 0x639, 0x62F, 0x643, 0x20, 0x627, 0x643, 0x62B, 0x631,
      0x21]"

text \<open>The test of line 114 on the text of the exception.\<close>

definition is_quota_error :: "(pystr \<Rightarrow> pystr) \<Rightarrow> pystr \<Rightarrow> bool" where
  "is_quota_error lower e \<longleftrightarrow>
     py_in (asc ''402'') e \<or> py_in (asc ''credit'') (lower e) \<or> py_in (asc ''payment'') (lower e)"

text \<open>The last resort of \<open>_fallback_to_gemini\<close> (lines 176-217).\<close>

definition hardcoded_response :: "(pystr \<Rightarrow> pystr) \<Rightarrow> pystr \<Rightarrow> pystr" where
  "hardcoded_response lower user_message =
     (let user_lower = lower user_message in
      if any_in car_words user_lower then cars_text
      else if any_in quiz_words user_lower then quiz_text
      else if any_in help_words user_lower then help_text
      else retry_text)"

text \<open>\<open>_fallback_to_gemini\<close> (lines 119-217); \<open>secondary\<close> is what the call of the
  secondary provider does if it is made.\<close>

definition fallback_to_gemini ::
  "(pystr \<Rightarrow> pystr) \<Rightarrow> ai_client \<Rightarrow> provider_call \<Rightarrow> pystr \<Rightarrow> pystr" where
  "fallback_to_gemini lower client secondary user_message =
     (if gemini_client client then
        (case secondary of
           Returned (Some t) \<Rightarrow>
             if t \<noteq> [] then strip t else hardcoded_response lower user_message
         | Returned None \<Rightarrow> hardcoded_response lower user_message
         | Raised e \<Rightarrow> hardcoded_response lower user_message)
      else hardcoded_response lower user_message)"

text \<open>\<open>generate_response\<close> (lines 69-117).\<close>

definition generate_response ::
  "(pystr \<Rightarrow> pystr) \<Rightarrow> ai_client \<Rightarrow> provider_call \<Rightarrow> provider_call \<Rightarrow> pystr \<Rightarrow> pystr" where
  "generate_response lower client primary secondary user_message =
     (case primary of
        Returned (Some c) \<Rightarrow>
          if c \<noteq> [] then strip c else fallback_to_gemini lower client secondary user_message
      | Returned None \<Rightarrow> fallback_to_gemini lower client secondary user_message
      | Raised e \<Rightarrow>
          if is_quota_error lower e then fallback_to_gemini lower client secondary user_message
          else processing_error_text)"

section \<open>Creative descriptions\<close>

definition english_template_head :: "pystr" where
  \<comment> \<open>_create_fallback_creative_description, line 664\<close>
  "english_template_head =
     asc ''A beautiful, high-quality artistic image of ''"

definition english_template_tail :: "pystr" where
  \<comment> \<open>line 664\<close>
  "english_template_tail =
     asc '', professional photography, detailed, vibrant colors, excellent lighting''"

definition arabic_template_head :: "pystr" where
  \<comment> \<open>line 665\<close>
  "arabic_template_head =
     [0x635, 0x648, 0x631, 0x629, 0x20, 0x62D, 0x644, 0x648, 0x629, 0x20, 0x648, 0x645, 0x641, 0x635,
      0x644, 0x629, 0x20, 0x644, 0x640, 0x20]"

definition arabic_template_tail :: "pystr" where
  \<comment> \<open>line 665\<close>
  "arabic_template_tail =
     [0x20, 0x628, 0x623, 0x644, 0x648, 0x627, 0x646, 0x20, 0x632, 0x627, 0x647, 0x64A, 0x629, 0x20,
      0x648, 0x625, 0x636, 0x627, 0x621, 0x629, 0x20, 0x645, 0x645, 0x62A, 0x627, 0x632, 0x629, 0x60C,
      0x20, 0x62A, 0x635, 0x648, 0x64A, 0x631, 0x20, 0x627, 0x62D, 0x62A, 0x631, 0x627, 0x641, 0x64A,
      0x20, 0x639, 0x627, 0x644, 0x64A, 0x20, 0x627, 0x644, 0x62C, 0x648, 0x62F, 0x629]"

definition english_marker :: pystr where
  "english_marker = asc ''ENGLISH_PROMPT:''"

definition arabic_marker :: pystr where
  "arabic_marker = asc ''ARABIC_DESCRIPTION:''"

text \<open>\<open>_create_fallback_creative_description\<close> (lines 662-666).\<close>

definition create_fallback_creative_description :: "pystr \<Rightarrow> pystr \<times> pystr" where
  "create_fallback_creative_description description =
     (arabic_template_head @ description @ arabic_template_tail,
      english_template_head @ description @ english_template_tail)"

text \<open>\<open>_parse_creative_response\<close> (lines 648-660); the last case is the \<open>except\<close> of
  line 659, for a list of parts with no second element.\<close>

definition parse_creative_response :: "pystr \<Rightarrow> pystr \<Rightarrow> pystr \<times> pystr" where
  "parse_creative_response response description =
     (if py_in english_marker response \<and> py_in arabic_marker response then
        (case split_on arabic_marker response of
           p0 # p1 # rest \<Rightarrow> (strip p1, strip (replace english_marker [] p0))
         | _ \<Rightarrow> create_fallback_creative_description description)
      else create_fallback_creative_description description)"

text \<open>
  \<open>generate_creative_description\<close> (lines 570-646). After an exception of the primary
  provider the secondary one is called when it is configured, but the call of lines
  623-632 always raises: it names \<open>types\<close>, which the module never imports, and
  \<open>generate_content\<close> on \<open>genai.models\<close>, which has no such function. The exception
  is caught in line 638, so both ways after an exception of the primary end in the
  templated pair of line 642.
\<close>

definition generate_creative_description ::
  "ai_client \<Rightarrow> provider_call \<Rightarrow> pystr \<Rightarrow> pystr \<times> pystr" where
  "generate_creative_description client primary description =
     (case primary of
        Returned (Some c) \<Rightarrow>
          if c \<noteq> [] then parse_creative_response (strip c) description
          else create_fallback_creative_description description
      | Returned None \<Rightarrow> create_fallback_creative_description description
      | Raised e \<Rightarrow>
          if gemini_client client then create_fallback_creative_description description
          else create_fallback_creative_description description)"

section \<open>Reading the stores\<close>

text \<open>
  The exchanges a user has stored, none for a user without an entry; the exchanges a
  sequence of recorded calls holds for a user, in the order of the calls; and the
  communication-style descriptors of a user, none for a user without a memory.
\<close>

definition stored :: "bot \<Rightarrow> int \<Rightarrow> exchange list" where
  "stored b u = (case conversations b u of None \<Rightarrow> [] | Some xs \<Rightarrow> xs)"

definition exchanges_for ::
  "int \<Rightarrow> (int \<times> pystr \<times> pystr \<times> real \<times> real) list \<Rightarrow> exchange list" where
  "exchanges_for u calls =
     map (\<lambda>(user_id, user_message, bot_response, t1, t2).
            \<lparr> ex_user = user_message, ex_assistant = bot_response, ex_timestamp = t1 \<rparr>)
       (filter (\<lambda>c. fst c = u) calls)"

definition styles_of :: "bot \<Rightarrow> int \<Rightarrow> pystr list" where
  "styles_of b u =
     (case long_term_memory b u of None \<Rightarrow> [] | Some m \<Rightarrow> communication_style m)"

text \<open>
  A text is a trigger when one of the two tests of lines 1550 and 1560 finds it; a message
  is handled when one of the three handlers behind the gate ran for it.
\<close>

definition is_trigger :: "(pystr \<Rightarrow> pystr) \<Rightarrow> update \<Rightarrow> bool" where
  "is_trigger lower upd \<longleftrightarrow>
     trigger_phrase lower upd \<in> set activation_phrases \<or>
     trigger_phrase lower upd \<in> set deactivation_phrases"

definition is_handled :: "outcome \<Rightarrow> bool" where
  "is_handled out =
     (case out of Image_result r \<Rightarrow> True | Imagine_result \<Rightarrow> True | Chat_result \<Rightarrow> True
      | Replied t \<Rightarrow> False | Silent \<Rightarrow> False)"

text \<open>
  What happens to a recipient the platform is asked to deliver to: a blocked recipient
  is one whose delivery raises with a text that passes the test of line 1177, a refused
  one is one whose delivery raises with any other text.
\<close>

definition is_blocked :: "(pystr \<Rightarrow> pystr) \<Rightarrow> (int \<Rightarrow> delivery) \<Rightarrow> int \<Rightarrow> bool" where
  "is_blocked lower send u =
     (case send u of Delivered \<Rightarrow> False | Failed e \<Rightarrow> is_unreachable lower e)"

definition is_refused :: "(pystr \<Rightarrow> pystr) \<Rightarrow> (int \<Rightarrow> delivery) \<Rightarrow> int \<Rightarrow> bool" where
  "is_refused lower send u =
     (case send u of Delivered \<Rightarrow> False | Failed e \<Rightarrow> \<not> is_unreachable lower e)"

text \<open>
  The text a call of a provider answers with, when it returns a text that is not empty;
  and the outcomes of the primary call after which \<open>generate_response\<close> turns to
  \<open>_fallback_to_gemini\<close>: no text, or an exception that passes the test of line 114.
\<close>

definition answers :: "provider_call \<Rightarrow> pystr option" where
  "answers call = (case call of Returned (Some t) \<Rightarrow> if t \<noteq> [] then Some t else None
      | Returned None \<Rightarrow> None | Raised e \<Rightarrow> None)"

definition wants_fallback :: "(pystr \<Rightarrow> pystr) \<Rightarrow> provider_call \<Rightarrow> bool" where
  "wants_fallback lower primary =
     (case primary of Returned (Some t) \<Rightarrow> t = [] | Returned None \<Rightarrow> True
      | Raised e \<Rightarrow> is_quota_error lower e)"

text \<open>The text after the repairs of the three marker characters (lines 459-475), before
  the pattern for links is applied.\<close>

definition repaired :: "pystr \<Rightarrow> pystr" where
  "repaired text =
     (let t1 = collapse_backticks False text;
          t2 = (if odd (count_char 0x60 t1) then remove_last 0x60 t1 else t1);
          t3 = (if odd (count_char 0x2A t2) then remove_char 0x2A t2 else t2)
      in if odd (count_char 0x5F t3) then remove_char 0x5F t3 else t3)"

text \<open>The number a text of decimal digits stands for.\<close>

definition read_decimal :: "pystr \<Rightarrow> nat" where
  "read_decimal s = foldl (\<lambda>a c. 10 * a + (c - 0x30)) 0 s"

section \<open>Concrete inputs\<close>

text \<open>The stores of a bot that starts with no files, and stores with two users.\<close>

definition example_client :: ai_client where
  "example_client = \<lparr> gemini_api_key = Some (asc ''key'') \<rparr>"

definition fresh_bot :: bot where
  "fresh_bot = \<lparr> ai_client = Some example_client, user_modes = Map.empty, users = {},
     group_status = Map.empty, conversations = Map.empty, long_term_memory = Map.empty \<rparr>"

definition example_exchange :: exchange where
  "example_exchange = \<lparr> ex_user = asc ''hi'', ex_assistant = asc ''hello'', ex_timestamp = 10 \<rparr>"

definition example_bot :: bot where
  "example_bot = fresh_bot \<lparr> users := {1, 2},
     conversations := [1 \<mapsto> [example_exchange], 2 \<mapsto> [example_exchange, example_exchange]],
     long_term_memory := [1 \<mapsto> new_memory \<lparr> total_messages := 1 \<rparr>] \<rparr>"

definition example_files :: filesystem where
  "example_files = \<lparr> directories = {}, files = Map.empty \<rparr>"

definition all_ok :: platform where
  "all_ok = \<lparr> chat_action_ok = True, processing_ok = True, photo_ok = True, edit_ok = True \<rparr>"

definition image_mode_bot :: bot where
  "image_mode_bot = fresh_bot \<lparr> user_modes := [1 \<mapsto> Image] \<rparr>"

definition draw_update :: update where
  "draw_update = \<lparr> message_text = Some (asc ''a red car''), effective_user = 1,
     effective_chat = 1 \<rparr>"

definition calm_surroundings :: surroundings where
  "calm_surroundings = \<lparr> platform = all_ok, image_filename = asc ''images/generated_0.jpg'',
     chat_turn = Some (asc ''ok'', 1, 2) \<rparr>"

definition full_bot :: bot where
  "full_bot = fresh_bot \<lparr> conversations := [1 \<mapsto> replicate 100 example_exchange] \<rparr>"

text \<open>
  A bot whose client could not be constructed (lines 46-48): the constructor stopped
  before any store was set, so the stores of the record are the empty ones and
  \<open>handle_message\<close> never reads them. A bot with a client in which the group -5 is
  inactive. And messages of a group and of a private chat: the first deactivation
  phrase, the first activation phrase and a plain text.
\<close>

definition failed_bot :: bot where
  "failed_bot = fresh_bot \<lparr> ai_client := None \<rparr>"

definition muted_bot :: bot where
  "muted_bot = fresh_bot \<lparr> group_status := [-5 \<mapsto> False] \<rparr>"

definition mute_update :: update where
  "mute_update = \<lparr> message_text = Some [0x627, 0x646, 0x62C, 0x628], effective_user = 1,
     effective_chat = -5 \<rparr>"

definition talk_update :: update where
  "talk_update = \<lparr> message_text = Some [0x633, 0x648, 0x644, 0x641], effective_user = 1,
     effective_chat = -5 \<rparr>"

definition plain_update :: update where
  "plain_update = \<lparr> message_text = Some (asc ''hello''), effective_user = 2,
     effective_chat = -5 \<rparr>"

text \<open>Three known users, and a platform on which the second has blocked the bot.\<close>

definition example_send :: "int \<Rightarrow> delivery" where
  "example_send u =
     (if u = 2 then Failed (asc ''Forbidden: bot was blocked by the user'') else Delivered)"

definition known_bot :: bot where
  "known_bot = fresh_bot \<lparr> users := {1, 2, 3} \<rparr>"

text \<open>A prompt with the word for a car, and a response with both section markers.\<close>

definition car_prompt :: pystr where
  "car_prompt = [0x633, 0x64A, 0x627, 0x631, 0x629]"

definition marked_response :: pystr where
  "marked_response = asc ''ENGLISH_PROMPT: a cat'' @ [0xA, 0xA] @ asc ''ARABIC_DESCRIPTION: bzz''"

text \<open>A text with three backticks, two of them after the opening parenthesis of a link
  that is not closed: a backtick, \<open>[x](\<close>, a backtick, \<open>a\<close>, a backtick.\<close>

definition odd_tick_text :: pystr where
  "odd_tick_text = [0x60, 0x5B, 0x78, 0x5D, 0x28, 0x60, 0x61, 0x60]"

section \<open>Properties\<close>

subsection \<open>Clearing a conversation\<close>

text \<open>
  C8. Clearing the conversation of a user, by \<open>clear_conversation\<close> or through the
  command \<open>clear_memory_command\<close>, leaves that user without recorded exchanges, leaves
  the conversation of every other user as it was, and leaves the whole long-term memory,
  the record of the clearing user included, as it was.
\<close>

theorem clear_conversation_frame:
  "conversations (clear_conversation b u) u = None \<and>
   (\<forall>v. v \<noteq> u \<longrightarrow> conversations (clear_conversation b u) v = conversations b v) \<and>
   long_term_memory (clear_conversation b u) = long_term_memory b \<and>
   conversations (fst (clear_memory_command b u)) u \<in> {None, Some []} \<and>
   (\<forall>v. v \<noteq> u \<longrightarrow> conversations (fst (clear_memory_command b u)) v = conversations b v) \<and>
   long_term_memory (fst (clear_memory_command b u)) = long_term_memory b"
  by (auto simp: clear_memory_command_def clear_conversation_def
           split: option.splits list.splits)

theorem clear_conversation_frame_witness:
  "(2::int) \<noteq> 1 \<and>
   conversations example_bot 1 = Some [example_exchange] \<and>
   conversations (fst (clear_memory_command example_bot 1)) 1 = None \<and>
   conversations (fst (clear_memory_command example_bot 1)) 2 =
     Some [example_exchange, example_exchange] \<and>
   long_term_memory (fst (clear_memory_command example_bot 1)) 1 =
     Some (new_memory \<lparr> total_messages := 1 \<rparr>)"
proof -
  have c1: "conversations example_bot 1 = Some [example_exchange]"
    and c2: "conversations example_bot 2 = Some [example_exchange, example_exchange]"
    and m1: "long_term_memory example_bot 1 = Some (new_memory \<lparr> total_messages := 1 \<rparr>)"
    by (simp_all add: example_bot_def)
  have cmd: "fst (clear_memory_command example_bot 1) = clear_conversation example_bot 1"
    by (simp add: clear_memory_command_def c1)
  from clear_conversation_frame [of example_bot 1]
  have "conversations (clear_conversation example_bot 1) 1 = None"
    and "conversations (clear_conversation example_bot 1) 2 = conversations example_bot 2"
    and "long_term_memory (clear_conversation example_bot 1) = long_term_memory example_bot"
    by simp_all
  with c1 c2 m1 cmd show ?thesis by simp
qed

subsection \<open>Image generation\<close>

text \<open>
  C10. For every prompt and every target path \<open>generate_image\<close> returns \<open>False\<close> and
  leaves the files as they are. So the handler of an image request never sends a photo
  and writes no file: when the calls of the platform return it ends in its failure
  branch, with the notice about the missing key or the notice that the image could not
  be made, and otherwise in its error reply. A text message of a user in image mode that
  passes the group gate ends this way.
\<close>

theorem generate_image_always_fails:
  "generate_image client prompt image_path fs = (False, fs) \<and>
   handle_image_request client in_image_mode pf fs prompt image_path =
     (if \<not> chat_action_ok pf then fs
      else if asc ''images'' \<in> directories fs \<or> asc ''images'' \<in> dom (files fs) then fs
      else fs \<lparr> directories := insert (asc ''images'') (directories fs) \<rparr>,
      if chat_action_ok pf \<and> processing_ok pf \<and> edit_ok pf
      then Notice (if gemini_client client then image_failed_text else no_key_text)
      else Error_reply image_error_text) \<and>
   files (fst (handle_image_request client in_image_mode pf fs prompt image_path)) = files fs \<and>
   (ai_client b = Some client \<and> user_modes b (effective_user upd) = Some Image \<and>
    trigger_phrase lower upd \<notin> set activation_phrases \<and>
    trigger_phrase lower upd \<notin> set deactivation_phrases \<and>
    is_group_active b (effective_chat upd) \<longrightarrow>
    snd (handle_message lower (b, fs) upd env) =
      Image_result
        (if chat_action_ok (platform env) \<and> processing_ok (platform env) \<and>
            edit_ok (platform env)
         then Notice (if gemini_client client then image_failed_text else no_key_text)
         else Error_reply image_error_text) \<and>
    files (snd (fst (handle_message lower (b, fs) upd env))) = files fs)"
  by (auto simp: generate_image_def handle_image_request_def handle_message_def Let_def
        get_user_mode_def add_user_def is_group_active_def split: prod.splits)

theorem generate_image_always_fails_witness:
  "ai_client image_mode_bot = Some example_client \<and>
   user_modes image_mode_bot (effective_user draw_update) = Some Image \<and>
   trigger_phrase lower_ascii draw_update \<notin> set activation_phrases \<and>
   trigger_phrase lower_ascii draw_update \<notin> set deactivation_phrases \<and>
   is_group_active image_mode_bot (effective_chat draw_update) \<and>
   snd (handle_message lower_ascii (image_mode_bot, example_files) draw_update
          calm_surroundings) = Image_result (Notice image_failed_text) \<and>
   files (snd (fst (handle_message lower_ascii (image_mode_bot, example_files) draw_update
          calm_surroundings))) = Map.empty"
proof -
  have h1: "ai_client image_mode_bot = Some example_client"
    and h2: "user_modes image_mode_bot (effective_user draw_update) = Some Image"
    and h5: "is_group_active image_mode_bot (effective_chat draw_update)"
    by (simp_all add: image_mode_bot_def fresh_bot_def draw_update_def is_group_active_def)
  have ph: "trigger_phrase lower_ascii draw_update = asc ''a red car''"
    by (simp add: trigger_phrase_def draw_update_def strip_def lower_ascii_def asc_def
          is_space_def)
  have h3: "trigger_phrase lower_ascii draw_update \<notin> set activation_phrases"
    unfolding ph by (simp add: activation_phrases_def asc_def)
  have h4: "trigger_phrase lower_ascii draw_update \<notin> set deactivation_phrases"
    unfolding ph by (simp add: deactivation_phrases_def asc_def)
  have g: "gemini_client example_client"
    by (simp add: gemini_client_def example_client_def asc_def)
  from generate_image_always_fails [of example_client _ _ example_files _ _ image_mode_bot
      draw_update lower_ascii calm_surroundings] h1 h2 h3 h4 h5 g
  show ?thesis
    by (simp add: calm_surroundings_def all_ok_def example_files_def)
qed

subsection \<open>The bound on the stored exchanges\<close>

lemma last_n_length: "length (last_n n xs) \<le> n"
  by (simp add: last_n_def)

lemma last_n_short: "length xs \<le> n \<Longrightarrow> last_n n xs = xs"
  by (simp add: last_n_def)

lemma last_n_append: "last_n n (last_n n xs @ ys) = last_n n (xs @ ys)"
proof (cases "length xs \<le> n")
  case True
  then show ?thesis by (simp add: last_n_short)
next
  case False
  then show ?thesis by (simp add: last_n_def add.commute)
qed

lemma conversations_update_long_term_memory:
  "conversations (update_long_term_memory lower b u um br t) = conversations b"
  by (simp add: update_long_term_memory_def Let_def)

lemma conversations_add_message:
  "conversations (add_message_to_conversation lower b u um br t1 t2) =
     (conversations b)(u \<mapsto> last_n 100 (stored b u @
        [\<lparr> ex_user = um, ex_assistant = br, ex_timestamp = t1 \<rparr>]))"
  by (simp add: add_message_to_conversation_def conversations_update_long_term_memory Let_def
        stored_def max_messages_per_user_def last_n_short)

lemma record_all_snoc:
  "record_all lower b (calls @ [(u, um, br, t1, t2)]) =
     add_message_to_conversation lower (record_all lower b calls) u um br t1 t2"
  by (simp add: record_all_def)

lemma conversations_record_all:
  "conversations (record_all lower b calls) u =
     (if exchanges_for u calls = [] then conversations b u
      else Some (last_n 100 (stored b u @ exchanges_for u calls)))"
proof (induction calls rule: rev_induct)
  case Nil
  then show ?case by (simp add: record_all_def exchanges_for_def)
next
  case (snoc c calls)
  obtain v um br t1 t2 where c: "c = (v, um, br, t1, t2)" by (cases c) auto
  show ?case
  proof (cases "v = u")
    case False
    with snoc c show ?thesis
      by (simp add: record_all_snoc conversations_add_message exchanges_for_def)
  next
    case True
    have st: "stored (record_all lower b calls) u =
        (if exchanges_for u calls = [] then stored b u
         else last_n 100 (stored b u @ exchanges_for u calls))"
      using snoc by (simp add: stored_def)
    have ex: "exchanges_for u (calls @ [c]) = exchanges_for u calls @
        [\<lparr> ex_user = um, ex_assistant = br, ex_timestamp = t1 \<rparr>]"
      using True c by (simp add: exchanges_for_def)
    show ?thesis
      using True c st ex
      by (simp add: record_all_snoc conversations_add_message last_n_append)
  qed
qed

lemma stored_record_all_bound:
  "length (stored b u) \<le> 100 \<or> exchanges_for u calls \<noteq> [] \<Longrightarrow>
   length (stored (record_all lower b calls) u) \<le> 100"
  by (auto simp: stored_def [of "record_all lower b calls"] conversations_record_all
        last_n_length stored_def [of b, symmetric])

lemma eviction_of_the_oldest:
  assumes "conversations b u = Some xs" "length xs = 100"
  shows "conversations (add_message_to_conversation lower b u um br t1 t2) u =
     Some (tl xs @ [\<lparr> ex_user = um, ex_assistant = br, ex_timestamp = t1 \<rparr>])"
  using assms by (cases xs) (simp_all add: conversations_add_message stored_def last_n_def)

text \<open>
  C1. After any sequence of calls of \<open>add_message_to_conversation\<close> the exchanges
  stored for a user are the last 100 of the exchanges the user had before followed by the
  exchanges of the calls for that user, in the order of the calls. So the list of a user
  who was recorded holds at most 100 exchanges, lists that held at most 100 exchanges
  keep doing so, and appending to a list of exactly 100 exchanges drops its first, the
  oldest, and nothing else.
\<close>

theorem conversation_bounded_fifo:
  "conversations (record_all lower b calls) u =
     (if exchanges_for u calls = [] then conversations b u
      else Some (last_n 100 (stored b u @ exchanges_for u calls))) \<and>
   (exchanges_for u calls \<noteq> [] \<longrightarrow> length (stored (record_all lower b calls) u) \<le> 100) \<and>
   ((\<forall>v. length (stored b v) \<le> 100) \<longrightarrow>
      (\<forall>v. length (stored (record_all lower b calls) v) \<le> 100)) \<and>
   (conversations b u = Some xs \<and> length xs = 100 \<longrightarrow>
      conversations (add_message_to_conversation lower b u um br t1 t2) u =
        Some (tl xs @ [\<lparr> ex_user = um, ex_assistant = br, ex_timestamp = t1 \<rparr>]))"
  using conversations_record_all [of lower b calls u]
    stored_record_all_bound [of b _ calls lower]
    eviction_of_the_oldest [of b u xs lower um br t1 t2]
  by blast

theorem conversation_bounded_fifo_witness:
  "exchanges_for 1 [(1, asc ''hi'', asc ''yo'', 5, 6)] \<noteq> [] \<and>
   (\<forall>v. length (stored full_bot v) \<le> 100) \<and>
   conversations full_bot 1 = Some (replicate 100 example_exchange) \<and>
   length (replicate 100 example_exchange) = 100 \<and>
   length (stored (record_all lower_ascii full_bot [(1, asc ''hi'', asc ''yo'', 5, 6)]) 1)
     \<le> 100 \<and>
   conversations (add_message_to_conversation lower_ascii full_bot 1 (asc ''hi'') (asc ''yo'')
       5 6) 1 =
     Some (tl (replicate 100 example_exchange) @
       [\<lparr> ex_user = asc ''hi'', ex_assistant = asc ''yo'', ex_timestamp = 5 \<rparr>])"
proof -
  have h1: "exchanges_for 1 [(1, asc ''hi'', asc ''yo'', 5, 6)] \<noteq> []"
    by (simp add: exchanges_for_def)
  have h2: "\<forall>v. length (stored full_bot v) \<le> 100"
    by (simp add: stored_def full_bot_def)
  have h3: "conversations full_bot 1 = Some (replicate 100 example_exchange)"
    by (simp add: full_bot_def)
  have h4: "length (replicate 100 example_exchange) = 100" by simp
  from conversation_bounded_fifo [of lower_ascii full_bot "[(1, asc ''hi'', asc ''yo'', 5, 6)]" 1
      "replicate 100 example_exchange" "asc ''hi''" "asc ''yo''" 5 6] h1 h2 h3 h4
  show ?thesis by blast
qed

subsection \<open>Communication-style descriptors\<close>

lemma style_texts_differ:
  "style_numeric_ratings \<noteq> style_short_messages" "style_detailed \<noteq> style_short_messages"
  "style_short_messages \<noteq> style_numeric_ratings" "style_short_messages \<noteq> style_detailed"
  by (simp_all add: style_numeric_ratings_def style_short_messages_def style_detailed_def)

lemma count_add_style:
  "count_list (add_style d cs) d' =
     (if d' = d \<and> count_list cs d = 0 then 1 else count_list cs d')"
  by (auto simp: add_style_def count_list_0_iff)

lemma communication_style_update_memory:
  "communication_style (update_memory lower m msg br t) =
     (let cs1 = (if py_in rating_phrase_short (lower msg) \<or> py_in rating_phrase_long (lower msg)
                 then add_style style_numeric_ratings (communication_style m)
                 else communication_style m)
      in if length (split_ws msg) \<le> 3 then add_style style_short_messages cs1
         else if length (split_ws msg) > 15 then add_style style_detailed cs1
         else cs1)"
  by (simp add: update_memory_def Let_def)

lemma update_memory_keeps_styles:
  "\<exists>ext. communication_style (update_memory lower m msg br t) = communication_style m @ ext"
  unfolding communication_style_update_memory Let_def add_style_def by simp

lemma count_update_memory:
  "count_list (communication_style (update_memory lower m msg br t)) style_short_messages =
     (if length (split_ws msg) \<le> 3 \<and>
         count_list (communication_style m) style_short_messages = 0 then 1
      else count_list (communication_style m) style_short_messages)"
  unfolding communication_style_update_memory Let_def
  by (simp add: count_add_style style_texts_differ)

lemma long_term_memory_add_message:
  "long_term_memory (add_message_to_conversation lower b v msg br t1 t2) =
     (long_term_memory b)(v \<mapsto> update_memory lower
        (case long_term_memory b v of None \<Rightarrow> new_memory | Some m \<Rightarrow> m) msg br t2)"
  by (simp add: add_message_to_conversation_def update_long_term_memory_def Let_def)

lemma styles_add_message:
  "styles_of (add_message_to_conversation lower b v msg br t1 t2) u =
     (if v = u then communication_style (update_memory lower
        (case long_term_memory b u of None \<Rightarrow> new_memory | Some m \<Rightarrow> m) msg br t2)
      else styles_of b u)"
  by (simp add: styles_of_def long_term_memory_add_message)

lemma styles_as_memory:
  "styles_of b u =
     communication_style (case long_term_memory b u of None \<Rightarrow> new_memory | Some m \<Rightarrow> m)"
  by (simp add: styles_of_def new_memory_def split: option.splits)

lemma count_add_message:
  "count_list (styles_of (add_message_to_conversation lower b v msg br t1 t2) u)
     style_short_messages =
     (if v = u \<and> length (split_ws msg) \<le> 3 \<and>
         count_list (styles_of b u) style_short_messages = 0 then 1
      else count_list (styles_of b u) style_short_messages)"
proof -
  let ?m = "case long_term_memory b u of None \<Rightarrow> new_memory | Some m \<Rightarrow> m"
  have s: "styles_of b u = communication_style ?m" by (rule styles_as_memory)
  show ?thesis unfolding styles_add_message s by (simp add: count_update_memory)
qed

lemma count_record_all:
  "count_list (styles_of (record_all lower b calls) u) style_short_messages =
     (if count_list (styles_of b u) style_short_messages = 0 \<and>
         list_ex (\<lambda>c. fst c = u \<and> length (split_ws (fst (snd c))) \<le> 3) calls then 1
      else count_list (styles_of b u) style_short_messages)"
proof (induction calls rule: rev_induct)
  case Nil
  then show ?case by (simp add: record_all_def)
next
  case (snoc c calls)
  obtain v um br t1 t2 where c: "c = (v, um, br, t1, t2)" by (cases c) auto
  show ?case using snoc unfolding c record_all_snoc count_add_message by auto
qed

lemma record_all_keeps_styles:
  "\<exists>ext. styles_of (record_all lower b calls) u = styles_of b u @ ext"
proof (induction calls rule: rev_induct)
  case Nil
  then show ?case by (simp add: record_all_def)
next
  case (snoc c calls)
  obtain v um br t1 t2 where c: "c = (v, um, br, t1, t2)" by (cases c) auto
  from snoc obtain e1 where e1: "styles_of (record_all lower b calls) u = styles_of b u @ e1"
    by blast
  show ?case
  proof (cases "v = u")
    case False
    then show ?thesis using e1 by (simp add: c record_all_snoc styles_add_message)
  next
    case True
    obtain e2 where "communication_style (update_memory lower
        (case long_term_memory (record_all lower b calls) u of
           None \<Rightarrow> new_memory | Some m \<Rightarrow> m) um br t2)
       = styles_of (record_all lower b calls) u @ e2"
      using update_memory_keeps_styles [of lower _ um br t2] unfolding styles_as_memory by blast
    then show ?thesis using e1 True by (simp add: c record_all_snoc styles_add_message)
  qed
qed

text \<open>
  C7. Recording a message of at most three words puts the descriptor "uses short
  messages" into the communication style of the user when it is not there and adds
  nothing when it is; no update takes a descriptor away, the old list stays as the
  beginning of the new one. So for a user who starts without a memory the descriptor
  occurs exactly once after any sequence of recorded exchanges in which the user sent at
  least one such message.
\<close>

theorem short_messages_descriptor_once:
  "(length (split_ws user_message) \<le> 3 \<longrightarrow>
      count_list (communication_style (update_memory lower m user_message bot_response now))
        style_short_messages =
      (if count_list (communication_style m) style_short_messages = 0 then 1
       else count_list (communication_style m) style_short_messages)) \<and>
   (\<exists>ext. communication_style (update_memory lower m user_message bot_response now) =
      communication_style m @ ext) \<and>
   (long_term_memory b u = None \<and>
    list_ex (\<lambda>c. fst c = u \<and> length (split_ws (fst (snd c))) \<le> 3) calls \<longrightarrow>
      count_list (styles_of (record_all lower b calls) u) style_short_messages = 1) \<and>
   (\<exists>ext. styles_of (record_all lower b calls) u = styles_of b u @ ext)"
  using count_update_memory [of lower m user_message bot_response now]
    update_memory_keeps_styles [of lower m user_message bot_response now]
    count_record_all [of lower b calls u] record_all_keeps_styles [of lower b calls u]
  by (auto simp: styles_of_def)

theorem short_messages_descriptor_once_witness:
  "length (split_ws (asc ''hi'')) \<le> 3 \<and>
   long_term_memory fresh_bot 1 = None \<and>
   list_ex (\<lambda>c. fst c = 1 \<and> length (split_ws (fst (snd c))) \<le> 3)
     [(1, asc ''hi'', asc ''yo'', 5, 6), (1, asc ''ok then'', asc ''yes'', 7, 8)] \<and>
   count_list (communication_style (update_memory lower_ascii new_memory (asc ''hi'')
       (asc ''yo'') 6)) style_short_messages = 1 \<and>
   count_list (styles_of (record_all lower_ascii fresh_bot
       [(1, asc ''hi'', asc ''yo'', 5, 6), (1, asc ''ok then'', asc ''yes'', 7, 8)]) 1)
     style_short_messages = 1"
proof -
  have h1: "length (split_ws (asc ''hi'')) \<le> 3"
    by (simp add: split_ws_def asc_def is_space_def)
  have h2: "long_term_memory fresh_bot 1 = None"
    by (simp add: fresh_bot_def)
  have h3: "list_ex (\<lambda>c. fst c = 1 \<and> length (split_ws (fst (snd c))) \<le> 3)
     [(1::int, asc ''hi'', asc ''yo'', 5::real, 6::real), (1, asc ''ok then'', asc ''yes'', 7, 8)]"
    using h1 by simp
  have h4: "count_list (communication_style new_memory) style_short_messages = 0"
    by (simp add: new_memory_def)
  from short_messages_descriptor_once [of "asc ''hi''" lower_ascii new_memory "asc ''yo''" 6
      fresh_bot 1 "[(1, asc ''hi'', asc ''yo'', 5, 6), (1, asc ''ok then'', asc ''yes'', 7, 8)]"]
    h1 h2 h3 h4
  show ?thesis by simp
qed

subsection \<open>The context block\<close>

text \<open>
  C3. For a user without recorded exchanges, with no entry or with an empty list,
  \<open>get_conversation_context\<close> returns the empty string. For a user with at least one
  recorded exchange it returns a string that is not empty and ends with the three fixed
  lines of the instructions.
\<close>

theorem context_empty_or_instructed:
  "(stored b u = [] \<longrightarrow> get_conversation_context lower b u = []) \<and>
   (stored b u \<noteq> [] \<longrightarrow>
      get_conversation_context lower b u \<noteq> [] \<and>
      (\<exists>body. get_conversation_context lower b u = body @ instruction_suffix))"
  by (auto simp: get_conversation_context_def stored_def instruction_suffix_def
        new_message_header_def Let_def split: option.splits list.splits)

theorem context_empty_or_instructed_witness:
  "stored example_bot 3 = [] \<and> get_conversation_context lower_ascii example_bot 3 = [] \<and>
   stored example_bot 1 \<noteq> [] \<and> get_conversation_context lower_ascii example_bot 1 \<noteq> [] \<and>
   (\<exists>body. get_conversation_context lower_ascii example_bot 1 = body @ instruction_suffix)"
proof -
  have h3: "stored example_bot 3 = []" and h1: "stored example_bot 1 \<noteq> []"
    by (simp_all add: stored_def example_bot_def)
  from context_empty_or_instructed [of example_bot 3 lower_ascii]
    context_empty_or_instructed [of example_bot 1 lower_ascii] h1 h3
  show ?thesis by blast
qed

subsection \<open>The group gate\<close>

lemma triggers_disjoint: "set activation_phrases \<inter> set deactivation_phrases = {}"
  by (simp add: activation_phrases_def deactivation_phrases_def)

lemma add_message_keeps_gate:
  "group_status (add_message_to_conversation lower b u um br t1 t2) = group_status b"
  "ai_client (add_message_to_conversation lower b u um br t1 t2) = ai_client b"
  by (simp_all add: add_message_to_conversation_def update_long_term_memory_def Let_def)

lemma handle_message_ai_client:
  "ai_client (fst (fst (handle_message lower (b, fs) upd env))) = ai_client b"
  by (auto simp: handle_message_def Let_def add_user_def set_group_status_def
        add_message_keeps_gate split: option.splits prod.splits)

lemma deactivation_sets_inactive:
  assumes "ai_client b \<noteq> None" "effective_chat upd < 0"
    "trigger_phrase lower upd \<in> set deactivation_phrases"
  shows "handle_message lower (b, fs) upd env =
     ((set_group_status (add_user b (effective_user upd)) (effective_chat upd) False, fs),
      Replied silenced_text)"
proof -
  from assms(3) triggers_disjoint have "trigger_phrase lower upd \<notin> set activation_phrases"
    by blast
  with assms show ?thesis by (auto simp: handle_message_def Let_def)
qed

lemma activation_sets_active:
  assumes "ai_client b \<noteq> None" "effective_chat upd < 0"
    "trigger_phrase lower upd \<in> set activation_phrases"
  shows "handle_message lower (b, fs) upd env =
     ((set_group_status (add_user b (effective_user upd)) (effective_chat upd) True, fs),
      Replied activated_text)"
  using assms by (auto simp: handle_message_def Let_def)

lemma silenced_group_drops:
  assumes "ai_client b \<noteq> None" "effective_chat upd < 0"
    "group_status b (effective_chat upd) = Some False" "\<not> is_trigger lower upd"
  shows "handle_message lower (b, fs) upd env = ((add_user b (effective_user upd), fs), Silent)"
  using assms
  by (auto simp: handle_message_def Let_def is_trigger_def is_group_active_def add_user_def)

lemma active_is_handled:
  assumes "ai_client b \<noteq> None" "is_group_active b (effective_chat upd)"
    "\<not> is_trigger lower upd"
  shows "is_handled (snd (handle_message lower (b, fs) upd env))"
  using assms
  by (auto simp: handle_message_def Let_def is_trigger_def is_group_active_def add_user_def
        is_handled_def split: prod.splits option.splits)

lemma stays_inactive:
  assumes "group_status b g = Some False"
    "\<not> (effective_chat upd = g \<and> trigger_phrase lower upd \<in> set activation_phrases)"
  shows "group_status (fst (fst (handle_message lower (b, fs) upd env))) g = Some False"
  using assms
  by (auto simp: handle_message_def Let_def add_user_def set_group_status_def
        add_message_keeps_gate split: prod.splits option.splits)

lemma silenced_trace:
  assumes "ai_client b \<noteq> None" "g < 0" "group_status b g = Some False"
    "\<forall>m \<in> set ms. \<not> (effective_chat (fst m) = g \<and>
        trigger_phrase lower (fst m) \<in> set activation_phrases)"
    "i < length ms" "effective_chat (fst (ms ! i)) = g" "\<not> is_trigger lower (fst (ms ! i))"
  shows "serve lower (b, fs) ms ! i = Silent"
  using assms
proof (induction ms arbitrary: b fs i)
  case Nil
  then show ?case by simp
next
  case (Cons m ms)
  obtain b' fs' where w: "fst (handle_message lower (b, fs) (fst m) (snd m)) = (b', fs')"
    by (cases "fst (handle_message lower (b, fs) (fst m) (snd m))") auto
  show ?case
  proof (cases i)
    case 0
    with Cons.prems silenced_group_drops [of b "fst m" lower fs "snd m"]
    show ?thesis by simp
  next
    case (Suc j)
    have a: "ai_client b' \<noteq> None"
      using handle_message_ai_client [of lower b fs "fst m" "snd m"] w Cons.prems(1) by simp
    have s: "group_status b' g = Some False"
      using stays_inactive [of b g "fst m" lower fs "snd m"] w Cons.prems(3,4) by simp
    from Cons.IH [of b' j fs', OF a Cons.prems(2) s] Cons.prems Suc w
    show ?thesis by simp
  qed
qed

lemma ph_mute:
  "trigger_phrase lower_ascii mute_update = [0x627, 0x646, 0x62C, 0x628]"
  by (simp add: trigger_phrase_def mute_update_def strip_def lower_ascii_def is_space_def)

lemma ph_talk:
  "trigger_phrase lower_ascii talk_update = [0x633, 0x648, 0x644, 0x641]"
  by (simp add: trigger_phrase_def talk_update_def strip_def lower_ascii_def is_space_def)

lemma ph_plain:
  "trigger_phrase lower_ascii plain_update = asc ''hello''"
  by (simp add: trigger_phrase_def plain_update_def strip_def lower_ascii_def is_space_def
        asc_def)

lemma silencing_with_client:
  assumes "ai_client b \<noteq> None" and "g < 0"
  shows
  "(group_status b g = Some False \<and> effective_chat n = g \<and> \<not> is_trigger lower n \<longrightarrow>
      handle_message lower (b, fs) n env = ((add_user b (effective_user n), fs), Silent)) \<and>
   (effective_chat d = g \<and> trigger_phrase lower d \<in> set deactivation_phrases \<longrightarrow>
      group_status (fst (fst (handle_message lower (b, fs) d env))) g = Some False \<and>
      snd (handle_message lower (b, fs) d env) = Replied silenced_text \<and>
      ((\<forall>m \<in> set ms. \<not> (effective_chat (fst m) = g \<and>
            trigger_phrase lower (fst m) \<in> set activation_phrases)) \<and>
       i < length ms \<and> effective_chat (fst (ms ! i)) = g \<and> \<not> is_trigger lower (fst (ms ! i)) \<longrightarrow>
         serve lower (b, fs) ((d, env) # ms) ! Suc i = Silent)) \<and>
   (effective_chat a = g \<and> trigger_phrase lower a \<in> set activation_phrases \<longrightarrow>
      group_status (fst (fst (handle_message lower (b, fs) a env))) g = Some True \<and>
      snd (handle_message lower (b, fs) a env) = Replied activated_text \<and>
      (effective_chat n = g \<and> \<not> is_trigger lower n \<longrightarrow>
         is_handled (serve lower (b, fs) [(a, env), (n, env')] ! 1)))"
proof (intro conjI impI)
  assume "group_status b g = Some False \<and> effective_chat n = g \<and> \<not> is_trigger lower n"
  with silenced_group_drops [of b n lower fs env] assms
  show "handle_message lower (b, fs) n env = ((add_user b (effective_user n), fs), Silent)"
    by simp
next
  assume d: "effective_chat d = g \<and> trigger_phrase lower d \<in> set deactivation_phrases"
  let ?b1 = "set_group_status (add_user b (effective_user d)) g False"
  have hd: "handle_message lower (b, fs) d env = ((?b1, fs), Replied silenced_text)"
    using deactivation_sets_inactive [of b d lower fs env] assms d by simp
  show "group_status (fst (fst (handle_message lower (b, fs) d env))) g = Some False"
    by (simp add: hd set_group_status_def)
  show "snd (handle_message lower (b, fs) d env) = Replied silenced_text"
    by (simp add: hd)
  assume t: "(\<forall>m \<in> set ms. \<not> (effective_chat (fst m) = g \<and>
            trigger_phrase lower (fst m) \<in> set activation_phrases)) \<and>
       i < length ms \<and> effective_chat (fst (ms ! i)) = g \<and> \<not> is_trigger lower (fst (ms ! i))"
  have "ai_client ?b1 \<noteq> None" "group_status ?b1 g = Some False"
    using assms by (simp_all add: set_group_status_def add_user_def)
  from silenced_trace [OF this(1) assms(2) this(2), of ms lower i fs] t
  show "serve lower (b, fs) ((d, env) # ms) ! Suc i = Silent"
    by (simp add: hd)
next
  assume a: "effective_chat a = g \<and> trigger_phrase lower a \<in> set activation_phrases"
  let ?b1 = "set_group_status (add_user b (effective_user a)) g True"
  have ha: "handle_message lower (b, fs) a env = ((?b1, fs), Replied activated_text)"
    using activation_sets_active [of b a lower fs env] assms a by simp
  show "group_status (fst (fst (handle_message lower (b, fs) a env))) g = Some True"
    by (simp add: ha set_group_status_def)
  show "snd (handle_message lower (b, fs) a env) = Replied activated_text"
    by (simp add: ha)
  assume n: "effective_chat n = g \<and> \<not> is_trigger lower n"
  have "ai_client ?b1 \<noteq> None" "is_group_active ?b1 (effective_chat n)"
    using assms n by (simp_all add: set_group_status_def add_user_def is_group_active_def)
  from active_is_handled [of ?b1 n lower fs env'] this n
  show "is_handled (serve lower (b, fs) [(a, env), (n, env')] ! 1)"
    by (simp add: ha)
qed

lemma without_client:
  "ai_client b = None \<Longrightarrow>
   handle_message lower (b, fs) n env = ((b, fs), Replied unavailable_text)"
  by (simp add: handle_message_def)

lemma private_is_handled:
  assumes "ai_client b \<noteq> None" "effective_chat p > 0" "\<not> is_trigger lower p"
  shows "is_handled (snd (handle_message lower (b, fs) p env))"
proof -
  from assms(2) have "is_group_active b (effective_chat p)" by (simp add: is_group_active_def)
  from active_is_handled [of b p lower fs env] assms(1) this assms(3) show ?thesis by simp
qed

lemma clear_memory_always_answers:
  "snd (clear_memory_command b u) =
     (if stored b u = [] then no_memory_text else memory_cleared_text) \<and>
   snd (clear_memory_command b u) \<noteq> [] \<and>
   group_status (fst (clear_memory_command b u)) = group_status b"
  by (auto simp: clear_memory_command_def clear_conversation_def stored_def
        no_memory_text_def memory_cleared_text_def split: option.splits list.splits)

text \<open>
  C4, as amended. The messages are the text messages that are not commands, the ones
  \<open>handle_message\<close> receives. When the client of the providers could not be
  constructed, every such message is answered with the out-of-service text and the
  stores stay as they are. When the client was constructed: in a group (a chat with a
  negative identifier) whose stored status is inactive a message that is not a trigger
  phrase gets no reply and no handler. A deactivation phrase sets the status of its
  group to inactive and is answered; from then on, whatever text messages arrive in
  whatever chats, every message of that group that is not a trigger phrase gets no reply
  and no handler, as long as no activation phrase has been sent in that group. An
  activation phrase in the group sets its status to active and is answered, and the next
  message of the group that is not a trigger is handled. A message of a private chat (a
  positive identifier) that is not a trigger is handled whatever status is stored. The
  command that clears the memory is always answered, with one of its two texts, and
  leaves the status of every group as it is: it does not look at it.
\<close>

theorem group_silencing:
  "(ai_client b = None \<longrightarrow>
      handle_message lower (b, fs) n env = ((b, fs), Replied unavailable_text)) \<and>
   (ai_client b \<noteq> None \<and> g < 0 \<longrightarrow>
      (group_status b g = Some False \<and> effective_chat n = g \<and> \<not> is_trigger lower n \<longrightarrow>
         handle_message lower (b, fs) n env = ((add_user b (effective_user n), fs), Silent)) \<and>
      (effective_chat d = g \<and> trigger_phrase lower d \<in> set deactivation_phrases \<longrightarrow>
         group_status (fst (fst (handle_message lower (b, fs) d env))) g = Some False \<and>
         snd (handle_message lower (b, fs) d env) = Replied silenced_text \<and>
         ((\<forall>m \<in> set ms. \<not> (effective_chat (fst m) = g \<and>
               trigger_phrase lower (fst m) \<in> set activation_phrases)) \<and>
          i < length ms \<and> effective_chat (fst (ms ! i)) = g \<and>
          \<not> is_trigger lower (fst (ms ! i)) \<longrightarrow>
            serve lower (b, fs) ((d, env) # ms) ! Suc i = Silent)) \<and>
      (effective_chat a = g \<and> trigger_phrase lower a \<in> set activation_phrases \<longrightarrow>
         group_status (fst (fst (handle_message lower (b, fs) a env))) g = Some True \<and>
         snd (handle_message lower (b, fs) a env) = Replied activated_text \<and>
         (effective_chat n = g \<and> \<not> is_trigger lower n \<longrightarrow>
            is_handled (serve lower (b, fs) [(a, env), (n, env')] ! 1)))) \<and>
   (ai_client b \<noteq> None \<and> effective_chat p > 0 \<and> \<not> is_trigger lower p \<longrightarrow>
      is_handled (snd (handle_message lower (b, fs) p env))) \<and>
   (ai_client b \<noteq> None \<longrightarrow>
      snd (clear_memory_command b u) =
        (if stored b u = [] then no_memory_text else memory_cleared_text) \<and>
      snd (clear_memory_command b u) \<noteq> [] \<and>
      group_status (fst (clear_memory_command b u)) = group_status b)"
proof (intro conjI)
  show "ai_client b = None \<longrightarrow>
      handle_message lower (b, fs) n env = ((b, fs), Replied unavailable_text)"
    by (simp add: without_client)
  show "ai_client b \<noteq> None \<and> effective_chat p > 0 \<and> \<not> is_trigger lower p \<longrightarrow>
      is_handled (snd (handle_message lower (b, fs) p env))"
    using private_is_handled [of b p lower fs env] by blast
  show "ai_client b \<noteq> None \<longrightarrow>
      snd (clear_memory_command b u) =
        (if stored b u = [] then no_memory_text else memory_cleared_text) \<and>
      snd (clear_memory_command b u) \<noteq> [] \<and>
      group_status (fst (clear_memory_command b u)) = group_status b"
    using clear_memory_always_answers [of b u] by blast
  show "ai_client b \<noteq> None \<and> g < 0 \<longrightarrow>
      (group_status b g = Some False \<and> effective_chat n = g \<and> \<not> is_trigger lower n \<longrightarrow>
         handle_message lower (b, fs) n env = ((add_user b (effective_user n), fs), Silent)) \<and>
      (effective_chat d = g \<and> trigger_phrase lower d \<in> set deactivation_phrases \<longrightarrow>
         group_status (fst (fst (handle_message lower (b, fs) d env))) g = Some False \<and>
         snd (handle_message lower (b, fs) d env) = Replied silenced_text \<and>
         ((\<forall>m \<in> set ms. \<not> (effective_chat (fst m) = g \<and>
               trigger_phrase lower (fst m) \<in> set activation_phrases)) \<and>
          i < length ms \<and> effective_chat (fst (ms ! i)) = g \<and>
          \<not> is_trigger lower (fst (ms ! i)) \<longrightarrow>
            serve lower (b, fs) ((d, env) # ms) ! Suc i = Silent)) \<and>
      (effective_chat a = g \<and> trigger_phrase lower a \<in> set activation_phrases \<longrightarrow>
         group_status (fst (fst (handle_message lower (b, fs) a env))) g = Some True \<and>
         snd (handle_message lower (b, fs) a env) = Replied activated_text \<and>
         (effective_chat n = g \<and> \<not> is_trigger lower n \<longrightarrow>
            is_handled (serve lower (b, fs) [(a, env), (n, env')] ! 1)))"
  proof (intro impI)
    assume "ai_client b \<noteq> None \<and> g < 0"
    then have "ai_client b \<noteq> None" and "g < 0" by simp_all
    from silencing_with_client [OF this, of n lower fs env d ms i a env']
    show "(group_status b g = Some False \<and> effective_chat n = g \<and> \<not> is_trigger lower n \<longrightarrow>
         handle_message lower (b, fs) n env = ((add_user b (effective_user n), fs), Silent)) \<and>
      (effective_chat d = g \<and> trigger_phrase lower d \<in> set deactivation_phrases \<longrightarrow>
         group_status (fst (fst (handle_message lower (b, fs) d env))) g = Some False \<and>
         snd (handle_message lower (b, fs) d env) = Replied silenced_text \<and>
         ((\<forall>m \<in> set ms. \<not> (effective_chat (fst m) = g \<and>
               trigger_phrase lower (fst m) \<in> set activation_phrases)) \<and>
          i < length ms \<and> effective_chat (fst (ms ! i)) = g \<and>
          \<not> is_trigger lower (fst (ms ! i)) \<longrightarrow>
            serve lower (b, fs) ((d, env) # ms) ! Suc i = Silent)) \<and>
      (effective_chat a = g \<and> trigger_phrase lower a \<in> set activation_phrases \<longrightarrow>
         group_status (fst (fst (handle_message lower (b, fs) a env))) g = Some True \<and>
         snd (handle_message lower (b, fs) a env) = Replied activated_text \<and>
         (effective_chat n = g \<and> \<not> is_trigger lower n \<longrightarrow>
            is_handled (serve lower (b, fs) [(a, env), (n, env')] ! 1)))" .
  qed
qed

theorem group_silencing_witness:
  "ai_client failed_bot = None \<and>
   handle_message lower_ascii (failed_bot, example_files) mute_update calm_surroundings =
     ((failed_bot, example_files), Replied unavailable_text) \<and>
   ai_client fresh_bot \<noteq> None \<and> (-5::int) < 0 \<and>
   ai_client muted_bot \<noteq> None \<and> group_status muted_bot (-5) = Some False \<and>
   handle_message lower_ascii (muted_bot, example_files) plain_update calm_surroundings =
     ((add_user muted_bot 2, example_files), Silent) \<and>
   effective_chat mute_update = -5 \<and>
   trigger_phrase lower_ascii mute_update \<in> set deactivation_phrases \<and>
   effective_chat plain_update = -5 \<and> \<not> is_trigger lower_ascii plain_update \<and>
   serve lower_ascii (fresh_bot, example_files)
     [(mute_update, calm_surroundings), (plain_update, calm_surroundings)] ! 1 = Silent \<and>
   effective_chat talk_update = -5 \<and>
   trigger_phrase lower_ascii talk_update \<in> set activation_phrases \<and>
   is_handled (serve lower_ascii (fresh_bot, example_files)
     [(talk_update, calm_surroundings), (plain_update, calm_surroundings)] ! 1) \<and>
   effective_chat draw_update > 0 \<and> \<not> is_trigger lower_ascii draw_update \<and>
   group_status (fresh_bot \<lparr> group_status := [1 \<mapsto> False] \<rparr>) (effective_chat draw_update) =
     Some False \<and>
   is_handled (snd (handle_message lower_ascii
     (fresh_bot \<lparr> group_status := [1 \<mapsto> False] \<rparr>, example_files) draw_update
     calm_surroundings)) \<and>
   snd (clear_memory_command muted_bot 2) = no_memory_text"
proof -
  have c: "ai_client fresh_bot \<noteq> None"
    "ai_client (fresh_bot \<lparr> group_status := [1 \<mapsto> False] \<rparr>) \<noteq> None"
    by (simp_all add: fresh_bot_def)
  have fb: "ai_client failed_bot = None" by (simp add: failed_bot_def)
  have m: "effective_chat mute_update = -5"
    "trigger_phrase lower_ascii mute_update \<in> set deactivation_phrases"
    unfolding ph_mute by (simp_all add: mute_update_def deactivation_phrases_def)
  have t: "effective_chat talk_update = -5"
    "trigger_phrase lower_ascii talk_update \<in> set activation_phrases"
    unfolding ph_talk by (simp_all add: talk_update_def activation_phrases_def)
  have p: "effective_chat plain_update = -5" "\<not> is_trigger lower_ascii plain_update"
    unfolding is_trigger_def ph_plain
    by (simp_all add: plain_update_def activation_phrases_def deactivation_phrases_def asc_def)
  have ph_draw: "trigger_phrase lower_ascii draw_update = asc ''a red car''"
    by (simp add: trigger_phrase_def draw_update_def strip_def lower_ascii_def asc_def
          is_space_def)
  have d: "effective_chat draw_update > 0" "\<not> is_trigger lower_ascii draw_update"
    unfolding is_trigger_def ph_draw
    by (simp_all add: draw_update_def activation_phrases_def deactivation_phrases_def asc_def)
  have g: "group_status (fresh_bot \<lparr> group_status := [1 \<mapsto> False] \<rparr>)
      (effective_chat draw_update) = Some False"
    by (simp add: draw_update_def)
  have ms: "\<forall>m \<in> set [(plain_update, calm_surroundings)]. \<not> (effective_chat (fst m) = -5 \<and>
            trigger_phrase lower_ascii (fst m) \<in> set activation_phrases)"
    using p(2) by (simp add: is_trigger_def)
  have mb: "ai_client muted_bot \<noteq> None" "group_status muted_bot (-5) = Some False"
    "stored muted_bot 2 = []"
    by (simp_all add: muted_bot_def fresh_bot_def stored_def)
  from group_silencing [where b = failed_bot and lower = lower_ascii and fs = example_files
      and n = mute_update and env = calm_surroundings] fb
  have r: "handle_message lower_ascii (failed_bot, example_files) mute_update
      calm_surroundings = ((failed_bot, example_files), Replied unavailable_text)"
    by simp
  from group_silencing [where b = fresh_bot and g = "-5" and d = mute_update
      and lower = lower_ascii and fs = example_files and env = calm_surroundings
      and ms = "[(plain_update, calm_surroundings)]" and i = 0 and a = talk_update
      and n = plain_update and env' = calm_surroundings] c(1) m t p ms
  have r1: "serve lower_ascii (fresh_bot, example_files)
     [(mute_update, calm_surroundings), (plain_update, calm_surroundings)] ! 1 = Silent"
    and r2: "is_handled (serve lower_ascii (fresh_bot, example_files)
     [(talk_update, calm_surroundings), (plain_update, calm_surroundings)] ! 1)"
    by simp_all
  from group_silencing [where b = "fresh_bot \<lparr> group_status := [1 \<mapsto> False] \<rparr>"
      and lower = lower_ascii and fs = example_files and env = calm_surroundings
      and p = draw_update] c(2) d
  have r3: "is_handled (snd (handle_message lower_ascii
     (fresh_bot \<lparr> group_status := [1 \<mapsto> False] \<rparr>, example_files) draw_update
     calm_surroundings))"
    by simp
  from group_silencing [where b = muted_bot and g = "-5" and lower = lower_ascii
      and fs = example_files and env = calm_surroundings and n = plain_update and u = 2] mb p
  have r0: "handle_message lower_ascii (muted_bot, example_files) plain_update
      calm_surroundings = ((add_user muted_bot 2, example_files), Silent)"
    and r4: "snd (clear_memory_command muted_bot 2) = no_memory_text"
    by (simp_all add: plain_update_def)
  from c fb m t p d g r r0 r1 r2 r3 r4 mb show ?thesis by simp
qed

text \<open>
  C4 as stated fails for a bot whose client could not be constructed: \<open>handle_message\<close>
  answers every text message with the out-of-service text before it looks at the trigger
  phrases or at the status of the group (lines 1536-1539), so the deactivation phrase
  sent in a group is answered with that text and the group gets no inactive status. It
  also fails for a message that is a command: the command that clears the memory is
  answered for a user of a group whose status is inactive, as in every other chat.
\<close>

theorem failed_bot_answers:
  "ai_client failed_bot = None \<and>
   effective_chat mute_update < 0 \<and>
   trigger_phrase lower_ascii mute_update \<in> set deactivation_phrases \<and>
   handle_message lower_ascii (failed_bot, example_files) mute_update calm_surroundings =
     ((failed_bot, example_files), Replied unavailable_text) \<and>
   group_status failed_bot (effective_chat mute_update) \<noteq> Some False \<and>
   ai_client muted_bot \<noteq> None \<and>
   group_status muted_bot (-5) = Some False \<and>
   clear_memory_command muted_bot 2 = (muted_bot, no_memory_text) \<and>
   no_memory_text \<noteq> []"
  unfolding ph_mute
  by (simp add: handle_message_def failed_bot_def fresh_bot_def mute_update_def
        deactivation_phrases_def muted_bot_def clear_memory_command_def no_memory_text_def)

subsection \<open>Broadcasts\<close>

lemma targeted_loop_users:
  "fst (targeted_loop lower send ts (us, t)) = us - {u \<in> set ts. is_blocked lower send u}"
proof (induction ts arbitrary: us t)
  case Nil
  then show ?case by simp
next
  case (Cons u ts)
  show ?case
    by (cases "send u") (auto simp: Cons.IH is_blocked_def)
qed

lemma targeted_loop_sent:
  "sent_count (snd (targeted_loop lower send ts (us, t))) =
     sent_count t + length (filter (\<lambda>u. u \<in> us \<and> send u = Delivered) ts)"
proof (induction ts arbitrary: us t)
  case Nil
  then show ?case by simp
next
  case (Cons u ts)
  have eq: "\<And>e. send u = Failed e \<Longrightarrow>
      filter (\<lambda>v. v \<in> us \<and> v \<noteq> u \<and> send v = Delivered) ts =
      filter (\<lambda>v. v \<in> us \<and> send v = Delivered) ts"
    by (rule filter_cong) auto
  show ?case
    by (cases "send u") (auto simp: Cons.IH eq)
qed

lemma targeted_loop_total:
  "sent_count (snd (targeted_loop lower send ts (us, t))) +
   failed_count (snd (targeted_loop lower send ts (us, t))) +
   not_found_count (snd (targeted_loop lower send ts (us, t))) =
     sent_count t + failed_count t + not_found_count t + length ts"
proof (induction ts arbitrary: us t)
  case Nil
  then show ?case by simp
next
  case (Cons u ts)
  show ?case
    by (cases "send u") (auto simp: Cons.IH)
qed

lemma targeted_loop_failed:
  "failed_count (snd (targeted_loop lower send ts (us, t))) =
     failed_count t + length (filter (\<lambda>u. u \<in> us \<and> is_refused lower send u) ts) +
     card {u \<in> set ts. u \<in> us \<and> is_blocked lower send u}"
proof (induction ts arbitrary: us t)
  case Nil
  then show ?case by simp
next
  case (Cons u ts)
  show ?case
  proof (cases "u \<in> us")
    case False
    then have "{v \<in> set (u # ts). v \<in> us \<and> is_blocked lower send v} =
        {v \<in> set ts. v \<in> us \<and> is_blocked lower send v}" by auto
    with False show ?thesis by (simp add: Cons.IH)
  next
    case True
    show ?thesis
    proof (cases "send u")
      case Delivered
      then have "{v \<in> set (u # ts). v \<in> us \<and> is_blocked lower send v} =
        {v \<in> set ts. v \<in> us \<and> is_blocked lower send v}" by (auto simp: is_blocked_def)
      with True Delivered show ?thesis by (simp add: Cons.IH is_refused_def)
    next
      case (Failed e)
      show ?thesis
      proof (cases "is_unreachable lower e")
        case False
        with Failed have "{v \<in> set (u # ts). v \<in> us \<and> is_blocked lower send v} =
          {v \<in> set ts. v \<in> us \<and> is_blocked lower send v}" by (auto simp: is_blocked_def)
        with True Failed False show ?thesis by (simp add: Cons.IH is_refused_def)
      next
        case unreachable: True
        have blocked: "is_blocked lower send u" "\<not> is_refused lower send u"
          using Failed unreachable by (simp_all add: is_blocked_def is_refused_def)
        have f: "filter (\<lambda>v. v \<in> us \<and> v \<noteq> u \<and> is_refused lower send v) ts =
            filter (\<lambda>v. v \<in> us \<and> is_refused lower send v) ts"
          by (rule filter_cong) (use blocked in auto)
        have "{v. (v = u \<or> v \<in> set ts) \<and> v \<in> us \<and> is_blocked lower send v} =
            insert u {v \<in> set ts. v \<in> us \<and> v \<noteq> u \<and> is_blocked lower send v}"
          using True blocked by auto
        then have c: "card {v. (v = u \<or> v \<in> set ts) \<and> v \<in> us \<and> is_blocked lower send v} =
            Suc (card {v \<in> set ts. v \<in> us \<and> v \<noteq> u \<and> is_blocked lower send v})"
          by simp
        show ?thesis using True Failed unreachable blocked
          by (simp add: Cons.IH f c)
      qed
    qed
  qed
qed


lemma outcomes_partition:
  "length (filter (\<lambda>u. u \<in> us \<and> send u = Delivered) ts) +
   length (filter (\<lambda>u. u \<in> us \<and> send u \<noteq> Delivered) ts) +
   length (filter (\<lambda>u. u \<notin> us) ts) = length ts"
  by (induction ts) auto

lemma failures_partition:
  "length (filter (\<lambda>u. u \<in> us \<and> is_refused lower send u) ts) +
   length (filter (\<lambda>u. u \<in> us \<and> is_blocked lower send u) ts) =
   length (filter (\<lambda>u. u \<in> us \<and> send u \<noteq> Delivered) ts)"
  by (induction ts) (auto simp: is_refused_def is_blocked_def split: delivery.splits)

lemma distinct_card_filter:
  "distinct ts \<Longrightarrow> card {u \<in> set ts. P u} = length (filter P ts)"
  using distinct_card [of "filter P ts"] by simp

lemma broadcast_loop_users:
  "fst (broadcast_loop lower send ts (us, t)) = us - {u \<in> set ts. is_blocked lower send u}"
proof (induction ts arbitrary: us t)
  case Nil
  then show ?case by simp
next
  case (Cons u ts)
  show ?case
    by (cases "send u") (auto simp: Cons.IH is_blocked_def)
qed

lemma broadcast_loop_counts:
  "sent_count (snd (broadcast_loop lower send ts (us, t))) =
     sent_count t + length (filter (\<lambda>u. send u = Delivered) ts) \<and>
   failed_count (snd (broadcast_loop lower send ts (us, t))) =
     failed_count t + length (filter (\<lambda>u. send u \<noteq> Delivered) ts)"
proof (induction ts arbitrary: us t)
  case Nil
  then show ?case by simp
next
  case (Cons u ts)
  show ?case
    by (cases "send u") (auto simp: Cons.IH)
qed

lemma broadcast_outcome:
  "users (fst (send_broadcast lower b send order)) =
     users b - {u \<in> set order. is_blocked lower send u} \<and>
   sent_count (snd (send_broadcast lower b send order)) =
     length (filter (\<lambda>u. send u = Delivered) order) \<and>
   failed_count (snd (send_broadcast lower b send order)) =
     length (filter (\<lambda>u. send u \<noteq> Delivered) order)"
proof -
  let ?r = "broadcast_loop lower send order (users b, no_tally)"
  have r: "send_broadcast lower b send order = (b \<lparr> users := fst ?r \<rparr>, snd ?r)"
    by (simp add: send_broadcast_def split: prod.splits)
  have c: "sent_count (snd ?r) = length (filter (\<lambda>u. send u = Delivered) order)"
    "failed_count (snd ?r) = length (filter (\<lambda>u. send u \<noteq> Delivered) order)"
    using broadcast_loop_counts [of lower send order "users b" no_tally]
    by (simp_all add: no_tally_def)
  show ?thesis
    unfolding r using broadcast_loop_users [of lower send order "users b" no_tally] c by simp
qed

lemma digits_read_back:
  "read_decimal (digits n) = n \<and> (\<forall>c \<in> set (digits n). 0x30 \<le> c \<and> c \<le> 0x39)"
proof (induction n rule: digits.induct)
  case (1 n)
  show ?case
  proof (cases "n < 10")
    case True
    then show ?thesis by (simp add: digits.simps [of n] read_decimal_def)
  next
    case False
    with 1 have ih: "read_decimal (digits (n div 10)) = n div 10"
      "\<forall>c \<in> set (digits (n div 10)). 0x30 \<le> c \<and> c \<le> 0x39" by simp_all
    have "n mod 10 < 10" by simp
    then have m: "0x30 + n mod 10 \<le> 0x39" by linarith
    from False ih m show ?thesis
      by (auto simp: digits.simps [of n] read_decimal_def)
  qed
qed

lemma str_int_read_back:
  "read_decimal (str_int (int n)) = n \<and>
   (\<forall>c \<in> set (str_int (int n)). 0x30 \<le> c \<and> c \<le> 0x39)"
  using digits_read_back [of n] by (simp add: str_int_def)

lemma report_text:
  "targeted_report t n =
     report_head @
     report_sent @ str_int (int (sent_count t)) @ [0xA] @
     report_failed @ str_int (int (failed_count t)) @ [0xA] @
     (if not_found_count t > 0
      then report_not_found @ str_int (int (not_found_count t)) @ [0xA] else []) @
     report_total @ str_int (int n)"
  by (simp add: targeted_report_def)

lemma small_numbers: "str_int 1 = asc ''1''" "str_int 3 = asc ''3''"
  by (simp_all add: str_int_def digits.simps asc_def)

text \<open>
  C6. After a targeted broadcast the known users are the known users of before without
  the targets that are blocked, so a blocked target is removed and every other user,
  a target whose delivery failed for another reason included, stays registered. The
  number reported as sent is the number of targets that were known and delivered to;
  the three numbers add up to the number of targets. When no target is listed twice,
  the number reported as failed is the number of known targets whose delivery raised and
  the number reported as not registered is the number of targets that were not known.
  A blocked target listed more than once is counted as failed once and as not registered
  from then on. The report shown to the operator is the heading followed by one line for
  each of these numbers, each written in decimal digits that read back as the number:
  the line of the sent, the line of the failed, the line of the not registered when there
  are any, and the line with the number of targets.
\<close>

theorem targeted_broadcast_outcome:
  "users (fst (send_targeted_broadcast lower b send targets)) =
     users b - {u \<in> set targets. is_blocked lower send u} \<and>
   sent_count (fst (snd (send_targeted_broadcast lower b send targets))) =
     length (filter (\<lambda>u. u \<in> users b \<and> send u = Delivered) targets) \<and>
   failed_count (fst (snd (send_targeted_broadcast lower b send targets))) =
     length (filter (\<lambda>u. u \<in> users b \<and> is_refused lower send u) targets) +
     card {u \<in> set targets. u \<in> users b \<and> is_blocked lower send u} \<and>
   sent_count (fst (snd (send_targeted_broadcast lower b send targets))) +
   failed_count (fst (snd (send_targeted_broadcast lower b send targets))) +
   not_found_count (fst (snd (send_targeted_broadcast lower b send targets))) =
     length targets \<and>
   (distinct targets \<longrightarrow>
      failed_count (fst (snd (send_targeted_broadcast lower b send targets))) =
        length (filter (\<lambda>u. u \<in> users b \<and> send u \<noteq> Delivered) targets) \<and>
      not_found_count (fst (snd (send_targeted_broadcast lower b send targets))) =
        length (filter (\<lambda>u. u \<notin> users b) targets)) \<and>
   snd (snd (send_targeted_broadcast lower b send targets)) =
     report_head @
     report_sent @
       str_int (int (sent_count (fst (snd (send_targeted_broadcast lower b send targets))))) @
       [0xA] @
     report_failed @
       str_int (int (failed_count (fst (snd (send_targeted_broadcast lower b send targets))))) @
       [0xA] @
     (if not_found_count (fst (snd (send_targeted_broadcast lower b send targets))) > 0
      then report_not_found @
        str_int (int (not_found_count
          (fst (snd (send_targeted_broadcast lower b send targets))))) @ [0xA]
      else []) @
     report_total @ str_int (int (length targets)) \<and>
   (distinct targets \<longrightarrow>
      snd (snd (send_targeted_broadcast lower b send targets)) =
        report_head @
        report_sent @
          str_int (int (length (filter (\<lambda>u. u \<in> users b \<and> send u = Delivered) targets))) @
          [0xA] @
        report_failed @
          str_int (int (length (filter (\<lambda>u. u \<in> users b \<and> send u \<noteq> Delivered) targets))) @
          [0xA] @
        (if \<exists>u \<in> set targets. u \<notin> users b
         then report_not_found @
           str_int (int (length (filter (\<lambda>u. u \<notin> users b) targets))) @ [0xA]
         else []) @
        report_total @ str_int (int (length targets))) \<and>
   read_decimal (str_int (int k)) = k \<and>
   (\<forall>c \<in> set (str_int (int k)). 0x30 \<le> c \<and> c \<le> 0x39)"
proof -
  let ?r = "targeted_loop lower send targets (users b, no_tally)"
  have r: "send_targeted_broadcast lower b send targets =
      (b \<lparr> users := fst ?r \<rparr>, snd ?r, targeted_report (snd ?r) (length targets))"
    by (simp add: send_targeted_broadcast_def split: prod.splits)
  have u: "fst ?r = users b - {u \<in> set targets. is_blocked lower send u}"
    by (rule targeted_loop_users)
  have s: "sent_count (snd ?r) =
      length (filter (\<lambda>u. u \<in> users b \<and> send u = Delivered) targets)"
    using targeted_loop_sent [of lower send targets "users b" no_tally]
    by (simp add: no_tally_def)
  have f: "failed_count (snd ?r) =
      length (filter (\<lambda>u. u \<in> users b \<and> is_refused lower send u) targets) +
      card {u \<in> set targets. u \<in> users b \<and> is_blocked lower send u}"
    using targeted_loop_failed [of lower send targets "users b" no_tally]
    by (simp add: no_tally_def)
  have t: "sent_count (snd ?r) + failed_count (snd ?r) + not_found_count (snd ?r) =
      length targets"
    using targeted_loop_total [of lower send targets "users b" no_tally]
    by (simp add: no_tally_def)
  have d: "failed_count (snd ?r) =
        length (filter (\<lambda>u. u \<in> users b \<and> send u \<noteq> Delivered) targets) \<and>
      not_found_count (snd ?r) = length (filter (\<lambda>u. u \<notin> users b) targets)"
    if "distinct targets"
  proof -
    have f': "failed_count (snd ?r) =
        length (filter (\<lambda>u. u \<in> users b \<and> send u \<noteq> Delivered) targets)"
      using f distinct_card_filter [OF that, of "\<lambda>u. u \<in> users b \<and> is_blocked lower send u"]
        failures_partition [of "users b" lower send targets]
      by simp
    with t s outcomes_partition [of "users b" send targets] show ?thesis by simp
  qed
  have e: "(\<exists>u \<in> set targets. u \<notin> users b) \<longleftrightarrow>
      length (filter (\<lambda>u. u \<notin> users b) targets) > 0"
    by (induction targets) auto
  have p: "snd (snd (send_targeted_broadcast lower b send targets)) =
      targeted_report (snd ?r) (length targets)"
    by (simp add: r)
  have p1: "snd (snd (send_targeted_broadcast lower b send targets)) =
     report_head @
     report_sent @ str_int (int (sent_count (snd ?r))) @ [0xA] @
     report_failed @ str_int (int (failed_count (snd ?r))) @ [0xA] @
     (if not_found_count (snd ?r) > 0
      then report_not_found @ str_int (int (not_found_count (snd ?r))) @ [0xA] else []) @
     report_total @ str_int (int (length targets))"
    unfolding p by (rule report_text)
  have p2: "snd (snd (send_targeted_broadcast lower b send targets)) =
        report_head @
        report_sent @
          str_int (int (length (filter (\<lambda>u. u \<in> users b \<and> send u = Delivered) targets))) @
          [0xA] @
        report_failed @
          str_int (int (length (filter (\<lambda>u. u \<in> users b \<and> send u \<noteq> Delivered) targets))) @
          [0xA] @
        (if \<exists>u \<in> set targets. u \<notin> users b
         then report_not_found @
           str_int (int (length (filter (\<lambda>u. u \<notin> users b) targets))) @ [0xA]
         else []) @
        report_total @ str_int (int (length targets))"
    if "distinct targets"
    unfolding p1 e using d [OF that] s by simp
  have t': "fst (snd (send_targeted_broadcast lower b send targets)) = snd ?r"
    "fst (send_targeted_broadcast lower b send targets) = b \<lparr> users := fst ?r \<rparr>"
    by (simp_all add: r)
  show ?thesis
    unfolding t' using u s f t d p1 p2 str_int_read_back [of k] by simp
qed

lemma example_send_blocked:
  "is_blocked lower_ascii example_send u \<longleftrightarrow> u = 2"
  by (simp add: is_blocked_def example_send_def is_unreachable_def lower_ascii_def asc_def)

theorem targeted_broadcast_outcome_witness:
  "distinct [1, 2, 4 :: int] \<and>
   users (fst (send_targeted_broadcast lower_ascii known_bot example_send [1, 2, 4])) = {1, 3} \<and>
   sent_count (fst (snd (send_targeted_broadcast lower_ascii known_bot example_send [1, 2, 4])))
     = 1 \<and>
   failed_count (fst (snd (send_targeted_broadcast lower_ascii known_bot example_send [1, 2, 4])))
     = 1 \<and>
   not_found_count (fst (snd (send_targeted_broadcast lower_ascii known_bot example_send
     [1, 2, 4]))) = 1 \<and>
   snd (snd (send_targeted_broadcast lower_ascii known_bot example_send [1, 2, 4])) =
     report_head @ report_sent @ asc ''1'' @ [0xA] @ report_failed @ asc ''1'' @ [0xA] @
     report_not_found @ asc ''1'' @ [0xA] @ report_total @ asc ''3''"
proof -
  let ?r = "send_targeted_broadcast lower_ascii known_bot example_send [1, 2, 4]"
  note o = targeted_broadcast_outcome [of lower_ascii known_bot example_send "[1, 2, 4]" 0]
  have d: "distinct [1, 2, 4 :: int]" by simp
  have b: "{u \<in> set [1, 2, 4]. is_blocked lower_ascii example_send u} = {2}"
    by (auto simp: example_send_blocked)
  have k: "users known_bot = {1, 2, 3}" by (simp add: known_bot_def)
  have e: "example_send 1 = Delivered" "example_send 2 \<noteq> Delivered" "example_send 4 = Delivered"
    by (simp_all add: example_send_def)
  have m: "{1, 2, 3} - {2} = {1, 3 :: int}" by auto
  have x: "\<exists>u \<in> set [1, 2, 4 :: int]. u \<notin> users known_bot" using k by simp
  have fs: "length (filter (\<lambda>u. u \<in> users known_bot \<and> example_send u = Delivered) [1, 2, 4]) = 1"
    and ff: "length (filter (\<lambda>u. u \<in> users known_bot \<and> example_send u \<noteq> Delivered) [1, 2, 4])
      = 1"
    and fn: "length (filter (\<lambda>u. u \<notin> users known_bot) [1, 2, 4]) = 1"
    using k e by simp_all
  from o have "users (fst ?r) =
      users known_bot - {u \<in> set [1, 2, 4]. is_blocked lower_ascii example_send u}"
    by blast
  then have r1: "users (fst ?r) = {1, 3}" unfolding b k m .
  from o have "sent_count (fst (snd ?r)) =
      length (filter (\<lambda>u. u \<in> users known_bot \<and> example_send u = Delivered) [1, 2, 4])"
    by blast
  then have r2: "sent_count (fst (snd ?r)) = 1" unfolding fs .
  from o d have "failed_count (fst (snd ?r)) =
      length (filter (\<lambda>u. u \<in> users known_bot \<and> example_send u \<noteq> Delivered) [1, 2, 4])"
    and "not_found_count (fst (snd ?r)) =
      length (filter (\<lambda>u. u \<notin> users known_bot) [1, 2, 4])"
    by blast+
  then have r3: "failed_count (fst (snd ?r)) = 1" and r4: "not_found_count (fst (snd ?r)) = 1"
    unfolding ff fn .
  from o d have "snd (snd ?r) =
        report_head @
        report_sent @
          str_int (int (length (filter (\<lambda>u. u \<in> users known_bot \<and> example_send u = Delivered)
            [1, 2, 4]))) @
          [0xA] @
        report_failed @
          str_int (int (length (filter (\<lambda>u. u \<in> users known_bot \<and> example_send u \<noteq> Delivered)
            [1, 2, 4]))) @
          [0xA] @
        (if \<exists>u \<in> set [1, 2, 4]. u \<notin> users known_bot
         then report_not_found @
           str_int (int (length (filter (\<lambda>u. u \<notin> users known_bot) [1, 2, 4]))) @ [0xA]
         else []) @
        report_total @ str_int (int (length [1, 2, 4 :: int]))"
    by blast
  then have r5: "snd (snd ?r) =
     report_head @ report_sent @ asc ''1'' @ [0xA] @ report_failed @ asc ''1'' @ [0xA] @
     report_not_found @ asc ''1'' @ [0xA] @ report_total @ asc ''3''"
    unfolding fs ff fn using x by (simp add: small_numbers)
  from d r1 r2 r3 r4 r5 show ?thesis by simp
qed

subsection \<open>The fallback chain of the gateway\<close>

lemma hardcoded_cases:
  "hardcoded_response lower prompt \<in> {cars_text, quiz_text, help_text, retry_text}"
  by (simp add: hardcoded_response_def Let_def)

lemma texts_nonempty:
  "cars_text \<noteq> []" "quiz_text \<noteq> []" "help_text \<noteq> []" "retry_text \<noteq> []"
  "processing_error_text \<noteq> []"
  by (simp_all add: cars_text_def quiz_text_def help_text_def retry_text_def
        processing_error_text_def)

text \<open>
  C2, as amended. \<open>generate_response\<close> returns the stripped text of the primary
  provider when it answers. When the primary returns no text or raises an exception of
  the quota kind, it returns the stripped text of the secondary provider if that is
  configured and answers, and otherwise one of four fixed texts, none of them empty,
  picked by the words of the prompt. When the primary raises any other exception it
  returns the fixed apology. It returns a string in every case: no outcome of the two
  calls makes it raise. In particular, after a quota error of the primary the text of a
  configured, answering secondary is what is returned.
\<close>

theorem generate_response_chain:
  "(answers primary = Some c \<longrightarrow>
      generate_response lower client primary secondary prompt = strip c) \<and>
   (wants_fallback lower primary \<and> gemini_client client \<and> answers secondary = Some t \<longrightarrow>
      generate_response lower client primary secondary prompt = strip t) \<and>
   (wants_fallback lower primary \<and> (\<not> gemini_client client \<or> answers secondary = None) \<longrightarrow>
      generate_response lower client primary secondary prompt = hardcoded_response lower prompt \<and>
      hardcoded_response lower prompt \<in> {cars_text, quiz_text, help_text, retry_text} \<and>
      hardcoded_response lower prompt \<noteq> []) \<and>
   (primary = Raised e \<and> \<not> is_quota_error lower e \<longrightarrow>
      generate_response lower client primary secondary prompt = processing_error_text \<and>
      processing_error_text \<noteq> []) \<and>
   (primary = Raised e \<and> is_quota_error lower e \<and> gemini_client client \<and>
    secondary = Returned (Some t) \<and> t \<noteq> [] \<longrightarrow>
      generate_response lower client primary secondary prompt = strip t)"
proof -
  have ne: "hardcoded_response lower prompt \<noteq> []"
    using hardcoded_cases [of lower prompt] texts_nonempty by auto
  show ?thesis
    using ne hardcoded_cases [of lower prompt] texts_nonempty(5)
    by (auto simp: generate_response_def fallback_to_gemini_def answers_def wants_fallback_def
          split: provider_call.splits option.splits if_splits)
qed

theorem generate_response_chain_witness:
  "answers (Returned (Some (asc '' hi ''))) = Some (asc '' hi '') \<and>
   generate_response lower_ascii example_client (Returned (Some (asc '' hi '')))
     (Raised (asc ''unavailable'')) (asc ''x'') = asc ''hi'' \<and>
   wants_fallback lower_ascii (Raised (asc ''Error code: 402'')) \<and>
   is_quota_error lower_ascii (asc ''Error code: 402'') \<and>
   gemini_client example_client \<and>
   answers (Returned (Some (asc ''yo''))) = Some (asc ''yo'') \<and>
   generate_response lower_ascii example_client (Raised (asc ''Error code: 402''))
     (Returned (Some (asc ''yo''))) (asc ''x'') = asc ''yo'' \<and>
   wants_fallback lower_ascii (Returned None) \<and>
   \<not> gemini_client \<lparr> gemini_api_key = None \<rparr> \<and>
   generate_response lower_ascii \<lparr> gemini_api_key = None \<rparr> (Returned None)
     (Returned (Some (asc ''yo''))) (asc ''x'') = retry_text \<and>
   \<not> is_quota_error lower_ascii (asc ''timeout'') \<and>
   generate_response lower_ascii example_client (Raised (asc ''timeout''))
     (Returned (Some (asc ''yo''))) (asc ''x'') = processing_error_text"
proof -
  have a1: "answers (Returned (Some (asc '' hi ''))) = Some (asc '' hi '')"
    and a2: "answers (Returned (Some (asc ''yo''))) = Some (asc ''yo'')"
    by (simp_all add: answers_def asc_def)
  have q: "is_quota_error lower_ascii (asc ''Error code: 402'')"
    and nq: "\<not> is_quota_error lower_ascii (asc ''timeout'')"
    by (simp_all add: is_quota_error_def asc_def lower_ascii_def)
  have w1: "wants_fallback lower_ascii (Raised (asc ''Error code: 402''))"
    and w2: "wants_fallback lower_ascii (Returned None)"
    using q by (simp_all add: wants_fallback_def)
  have g: "gemini_client example_client" and ng: "\<not> gemini_client \<lparr> gemini_api_key = None \<rparr>"
    by (simp_all add: gemini_client_def example_client_def asc_def)
  have s: "strip (asc '' hi '') = asc ''hi''" "strip (asc ''yo'') = asc ''yo''"
    by (simp_all add: strip_def asc_def is_space_def)
  have x: "hardcoded_response lower_ascii (asc ''x'') = retry_text"
    by (simp add: hardcoded_response_def lower_ascii_def any_in_def car_words_def
          quiz_words_def help_words_def asc_def)
  from generate_response_chain [of "Returned (Some (asc '' hi ''))" "asc '' hi ''" lower_ascii
      example_client "Raised (asc ''unavailable'')" "asc ''x''"] a1 s
  have r1: "generate_response lower_ascii example_client (Returned (Some (asc '' hi '')))
     (Raised (asc ''unavailable'')) (asc ''x'') = asc ''hi''" by simp
  from generate_response_chain [of "Raised (asc ''Error code: 402'')" _ lower_ascii
      example_client "Returned (Some (asc ''yo''))" "asc ''x''" "asc ''yo''"] w1 g a2 s
  have r2: "generate_response lower_ascii example_client (Raised (asc ''Error code: 402''))
     (Returned (Some (asc ''yo''))) (asc ''x'') = asc ''yo''" by simp
  from generate_response_chain [of "Returned None" _ lower_ascii
      "\<lparr> gemini_api_key = None \<rparr>" "Returned (Some (asc ''yo''))" "asc ''x''"] w2 ng x
  have r3: "generate_response lower_ascii \<lparr> gemini_api_key = None \<rparr> (Returned None)
     (Returned (Some (asc ''yo''))) (asc ''x'') = retry_text" by simp
  from generate_response_chain [of "Raised (asc ''timeout'')" _ lower_ascii
      example_client "Returned (Some (asc ''yo''))" "asc ''x''" _ "asc ''timeout''"] nq
  have r4: "generate_response lower_ascii example_client (Raised (asc ''timeout''))
     (Returned (Some (asc ''yo''))) (asc ''x'') = processing_error_text" by simp
  from a1 a2 q nq w1 w2 g ng r1 r2 r3 r4 show ?thesis by simp
qed

text \<open>
  C2 as stated fails in what is returned when both providers fail: it is not one fixed
  text, a prompt about cars gets another text than the prompt \<open>x\<close>. And the string
  returned is empty when the text of the provider consists of white space.
\<close>

theorem fallback_text_varies:
  "generate_response lower_ascii example_client (Raised (asc ''Error code: 402''))
     (Raised (asc ''unavailable'')) car_prompt = cars_text \<and>
   generate_response lower_ascii example_client (Raised (asc ''Error code: 402''))
     (Raised (asc ''unavailable'')) (asc ''x'') = retry_text \<and>
   cars_text \<noteq> retry_text \<and>
   generate_response lower_ascii example_client (Returned (Some (asc '' '')))
     (Raised (asc ''unavailable'')) (asc ''x'') = []"
proof -
  have q: "is_quota_error lower_ascii (asc ''Error code: 402'')"
    by (simp add: is_quota_error_def asc_def)
  have g: "gemini_client example_client"
    by (simp add: gemini_client_def example_client_def asc_def)
  have c: "hardcoded_response lower_ascii car_prompt = cars_text"
    by (simp add: hardcoded_response_def car_prompt_def lower_ascii_def any_in_def car_words_def)
  have x: "hardcoded_response lower_ascii (asc ''x'') = retry_text"
    by (simp add: hardcoded_response_def lower_ascii_def any_in_def car_words_def
          quiz_words_def help_words_def asc_def)
  have d: "cars_text \<noteq> retry_text"
    by (simp add: cars_text_def retry_text_def)
  have s: "strip (asc '' '') = []"
    by (simp add: strip_def asc_def is_space_def)
  show ?thesis
    using q g c x d s
    by (simp add: generate_response_def fallback_to_gemini_def asc_def)
qed

subsection \<open>Creative descriptions\<close>

lemma split_scan_nonempty: "split_scan sep cur k s \<noteq> []"
  by (induction sep cur k s rule: split_scan.induct) auto

lemma split_scan_two:
  "py_in sep s \<Longrightarrow> sep \<noteq> [] \<Longrightarrow> \<exists>p0 p1 rest. split_scan sep cur 0 s = p0 # p1 # rest"
proof (induction s arbitrary: cur)
  case Nil
  then show ?case by simp
next
  case (Cons c cs)
  show ?case
  proof (cases "startswith sep (c # cs)")
    case True
    obtain p1 rest where "split_scan sep [] (length sep - 1) cs = p1 # rest"
      using split_scan_nonempty [of sep "[]" "length sep - 1" cs]
      by (cases "split_scan sep [] (length sep - 1) cs") auto
    with True show ?thesis by simp
  next
    case False
    with Cons.prems have "py_in sep cs" by simp
    from Cons.IH [OF this Cons.prems(2), of "c # cur"] False show ?thesis by simp
  qed
qed

lemma markers_nonempty: "arabic_marker \<noteq> []" "english_marker \<noteq> []"
  by (simp_all add: arabic_marker_def english_marker_def asc_def)

lemma parse_without_markers:
  "\<not> (py_in english_marker response \<and> py_in arabic_marker response) \<Longrightarrow>
   parse_creative_response response description = create_fallback_creative_description description"
  by (auto simp: parse_creative_response_def)

lemma parse_with_markers:
  assumes "py_in english_marker response" "py_in arabic_marker response"
  shows "\<exists>p0 p1 rest. split_on arabic_marker response = p0 # p1 # rest \<and>
     parse_creative_response response description =
       (strip p1, strip (replace english_marker [] p0))"
proof -
  from split_scan_two [OF assms(2) markers_nonempty(1), of "[]"]
  obtain p0 p1 rest where "split_on arabic_marker response = p0 # p1 # rest"
    by (auto simp: split_on_def)
  with assms show ?thesis by (simp add: parse_creative_response_def)
qed

text \<open>
  C9, as amended. For a response that lacks one of the two section markers
  \<open>_parse_creative_response\<close> returns the templated pair made from the description
  of the user. For a response with both markers it returns the stripped text between the
  first Arabic marker and the next one, and the stripped text before the first Arabic
  marker with the English marker taken out, whatever these texts are.
  \<open>generate_creative_description\<close> parses the stripped text of the primary provider
  when it answers, and returns the templated pair when the primary returns no text or
  raises, with or without a configured secondary; no outcome of the call makes it raise.
\<close>

theorem creative_description_fallback:
  "(\<not> (py_in english_marker response \<and> py_in arabic_marker response) \<longrightarrow>
      parse_creative_response response description =
        create_fallback_creative_description description) \<and>
   (py_in english_marker response \<and> py_in arabic_marker response \<longrightarrow>
      (\<exists>p0 p1 rest. split_on arabic_marker response = p0 # p1 # rest \<and>
         parse_creative_response response description =
           (strip p1, strip (replace english_marker [] p0)))) \<and>
   (answers primary = Some c \<longrightarrow>
      generate_creative_description client primary description =
        parse_creative_response (strip c) description) \<and>
   (answers primary = Some c \<and>
    \<not> (py_in english_marker (strip c) \<and> py_in arabic_marker (strip c)) \<longrightarrow>
      generate_creative_description client primary description =
        create_fallback_creative_description description) \<and>
   (answers primary = None \<longrightarrow>
      generate_creative_description client primary description =
        create_fallback_creative_description description)"
  using parse_without_markers [of response description]
    parse_without_markers [of "strip c" description]
    parse_with_markers [of response description]
  by (auto simp: generate_creative_description_def answers_def
        split: provider_call.splits option.splits if_splits)

theorem creative_description_fallback_witness:
  "\<not> (py_in english_marker (asc ''a nice picture'') \<and>
      py_in arabic_marker (asc ''a nice picture'')) \<and>
   parse_creative_response (asc ''a nice picture'') (asc ''cat'') =
     create_fallback_creative_description (asc ''cat'') \<and>
   py_in english_marker marked_response \<and> py_in arabic_marker marked_response \<and>
   parse_creative_response marked_response (asc ''cat'') = (asc ''bzz'', asc ''a cat'') \<and>
   answers (Returned (Some marked_response)) = Some marked_response \<and>
   generate_creative_description example_client (Returned (Some marked_response))
     (asc ''cat'') = (asc ''bzz'', asc ''a cat'') \<and>
   answers (Returned (Some (asc ''a nice picture''))) = Some (asc ''a nice picture'') \<and>
   generate_creative_description example_client (Returned (Some (asc ''a nice picture'')))
     (asc ''cat'') = create_fallback_creative_description (asc ''cat'') \<and>
   answers (Raised (asc ''timeout'')) = None \<and> gemini_client example_client \<and>
   generate_creative_description example_client (Raised (asc ''timeout'')) (asc ''cat'') =
     create_fallback_creative_description (asc ''cat'') \<and>
   answers (Returned None) = None \<and>
   generate_creative_description example_client (Returned None) (asc ''cat'') =
     create_fallback_creative_description (asc ''cat'')"
proof -
  have n: "\<not> (py_in english_marker (asc ''a nice picture'') \<and>
      py_in arabic_marker (asc ''a nice picture''))"
    by code_simp
  have m: "py_in english_marker marked_response" "py_in arabic_marker marked_response"
    by code_simp+
  have sp: "split_on arabic_marker marked_response = [asc ''ENGLISH_PROMPT: a cat'' @ [0xA, 0xA],
      asc '' bzz'']"
    by code_simp
  have st: "strip (asc '' bzz'') = asc ''bzz''"
    "strip (replace english_marker [] (asc ''ENGLISH_PROMPT: a cat'' @ [0xA, 0xA])) = asc ''a cat''"
    "strip marked_response = marked_response"
    "strip (asc ''a nice picture'') = asc ''a nice picture''"
    by code_simp+
  have a: "answers (Returned (Some marked_response)) = Some marked_response"
    "answers (Returned (Some (asc ''a nice picture''))) = Some (asc ''a nice picture'')"
    "answers (Raised (asc ''timeout'')) = None"
    "answers (Returned None) = None"
    by code_simp+
  have g: "gemini_client example_client"
    by (simp add: gemini_client_def example_client_def asc_def)
  from creative_description_fallback [of "asc ''a nice picture''" "asc ''cat''"
      "Returned (Some (asc ''a nice picture''))" "asc ''a nice picture''" example_client] n a st
  have r1: "parse_creative_response (asc ''a nice picture'') (asc ''cat'') =
     create_fallback_creative_description (asc ''cat'')"
    and r2: "generate_creative_description example_client
     (Returned (Some (asc ''a nice picture''))) (asc ''cat'') =
     create_fallback_creative_description (asc ''cat'')"
    by auto
  from creative_description_fallback [of marked_response "asc ''cat''"
      "Returned (Some marked_response)" marked_response example_client] m sp st a
  have r3: "parse_creative_response marked_response (asc ''cat'') = (asc ''bzz'', asc ''a cat'')"
    and r4: "generate_creative_description example_client (Returned (Some marked_response))
     (asc ''cat'') = (asc ''bzz'', asc ''a cat'')"
    by auto
  from creative_description_fallback [of marked_response "asc ''cat''"
      "Raised (asc ''timeout'')" _ example_client] a
  have r5: "generate_creative_description example_client (Raised (asc ''timeout''))
     (asc ''cat'') = create_fallback_creative_description (asc ''cat'')"
    by auto
  from creative_description_fallback [of marked_response "asc ''cat''"
      "Returned None" _ example_client] a
  have r6: "generate_creative_description example_client (Returned None) (asc ''cat'') =
     create_fallback_creative_description (asc ''cat'')"
    by auto
  from n m a g r1 r2 r3 r4 r5 r6 show ?thesis by blast
qed

text \<open>
  C9 as stated fails for a response whose parsing yields an empty half: for the response
  made of the two markers alone both halves are empty, and the pair of two empty strings
  is returned, not the templated pair.
\<close>

theorem empty_halves_returned:
  "py_in english_marker (asc ''ENGLISH_PROMPT:ARABIC_DESCRIPTION:'') \<and>
   py_in arabic_marker (asc ''ENGLISH_PROMPT:ARABIC_DESCRIPTION:'') \<and>
   parse_creative_response (asc ''ENGLISH_PROMPT:ARABIC_DESCRIPTION:'') (asc ''cat'') = ([], []) \<and>
   generate_creative_description example_client
     (Returned (Some (asc ''ENGLISH_PROMPT:ARABIC_DESCRIPTION:''))) (asc ''cat'') = ([], []) \<and>
   create_fallback_creative_description (asc ''cat'') \<noteq> ([], [])"
  by code_simp

subsection \<open>The response sanitizer\<close>

text \<open>
  What the sanitizer does achieve: after the three repairs the number of backticks is
  even; a text with an odd number of asterisks, or of underscores, comes out without any;
  and a link that is not closed, with no opening bracket before it, is replaced with its
  display text and everything before it is kept.
\<close>

lemma clean_as_repaired:
  "input \<noteq> [] \<Longrightarrow> clean_response_text input = strip (fix_broken_links (repaired input))"
  by (simp add: clean_response_text_def repaired_def Let_def)

lemma count_collapse:
  "c \<noteq> 0x60 \<Longrightarrow> count_char c (collapse_backticks f s) = count_char c s"
  by (induction f s rule: collapse_backticks.induct) (auto simp: count_char_def)

lemma count_remove_last_other:
  "c \<noteq> d \<Longrightarrow> count_char c (remove_last d s) = count_char c s"
proof -
  assume "c \<noteq> d"
  have "\<And>xs. length (filter (\<lambda>x. x = c) (remove1 d xs)) = length (filter (\<lambda>x. x = c) xs)"
  proof -
    fix xs show "length (filter (\<lambda>x. x = c) (remove1 d xs)) = length (filter (\<lambda>x. x = c) xs)"
      using \<open>c \<noteq> d\<close> by (induction xs) auto
  qed
  then show ?thesis by (simp add: count_char_def remove_last_def rev_filter [symmetric])
qed

lemma count_remove_last_same:
  "count_char d (remove_last d s) = count_char d s - 1"
proof -
  have "\<And>xs. length (filter (\<lambda>x. x = d) (remove1 d xs)) = length (filter (\<lambda>x. x = d) xs) - 1"
  proof -
    fix xs show "length (filter (\<lambda>x. x = d) (remove1 d xs)) = length (filter (\<lambda>x. x = d) xs) - 1"
      by (induction xs) auto
  qed
  then show ?thesis by (simp add: count_char_def remove_last_def rev_filter [symmetric])
qed

lemma count_remove_char:
  "count_char c (remove_char d s) = (if c = d then 0 else count_char c s)"
  by (induction s) (auto simp: count_char_def remove_char_def)

lemma repaired_ticks_even: "even (count_char 0x60 (repaired input))"
  by (simp add: repaired_def Let_def count_remove_char count_remove_last_same)

lemma repaired_asterisks:
  "count_char 0x2A (repaired input) = (if odd (count_char 0x2A input) then 0 else count_char 0x2A input)"
  by (simp add: repaired_def Let_def count_remove_char count_remove_last_other count_collapse)

lemma repaired_underscores:
  "count_char 0x5F (repaired input) = (if odd (count_char 0x5F input) then 0 else count_char 0x5F input)"
  by (simp add: repaired_def Let_def count_remove_char count_remove_last_other count_collapse)

lemma link_display_subset: "link_display s = Some d \<Longrightarrow> set d \<subseteq> set s"
  by (auto simp: link_display_def split: list.splits if_splits dest: set_takeWhileD)

lemma fix_broken_links_subset: "set (fix_broken_links s) \<subseteq> set s"
proof (induction s)
  case Nil
  then show ?case by simp
next
  case (Cons c cs)
  show ?case
  proof (cases "link_display (c # cs)")
    case None
    with Cons show ?thesis by auto
  next
    case (Some d)
    with link_display_subset [OF Some] show ?thesis by simp
  qed
qed

lemma strip_subset: "set (strip s) \<subseteq> set s"
  by (auto simp: strip_def dest!: set_dropWhileD)

lemma count_zero_iff: "count_char c s = 0 \<longleftrightarrow> c \<notin> set s"
  by (auto simp: count_char_def filter_empty_conv)

lemma odd_marker_stripped:
  assumes "c = 0x2A \<or> c = 0x5F" "odd (count_char c input)"
  shows "count_char c (clean_response_text input) = 0"
proof -
  from assms(2) have ne: "input \<noteq> []" by (auto simp: count_char_def)
  have "count_char c (repaired input) = 0"
    using assms repaired_asterisks [of input] repaired_underscores [of input] by auto
  then have "c \<notin> set (repaired input)" by (simp add: count_zero_iff)
  with fix_broken_links_subset [of "repaired input"] strip_subset [of "fix_broken_links (repaired input)"]
  have "c \<notin> set (clean_response_text input)" unfolding clean_as_repaired [OF ne] by blast
  then show ?thesis by (simp add: count_zero_iff)
qed

lemma link_display_at:
  assumes "0x5D \<notin> set d" "0x29 \<notin> set url"
  shows "link_display (0x5B # d @ 0x5D # 0x28 # url) = Some d"
proof -
  have t: "takeWhile (\<lambda>x. x \<noteq> 0x5D) (d @ 0x5D # 0x28 # url) = d"
    using assms(1) by (induction d) auto
  have dr: "dropWhile (\<lambda>x. x \<noteq> 0x5D) (d @ 0x5D # 0x28 # url) = 0x5D # 0x28 # url"
    using assms(1) by (induction d) auto
  show ?thesis using assms(2) by (simp add: link_display_def t dr)
qed

lemma link_display_needs_bracket: "c \<noteq> 0x5B \<Longrightarrow> link_display (c # cs) = None"
  by (simp add: link_display_def)

lemma unterminated_link_replaced:
  assumes "0x5B \<notin> set pre" "0x5D \<notin> set d" "0x29 \<notin> set url"
  shows "fix_broken_links (pre @ 0x5B # d @ 0x5D # 0x28 # url) = pre @ d"
  using assms(1)
proof (induction pre)
  case Nil
  then show ?case using link_display_at [OF assms(2,3)] by simp
next
  case (Cons c pre)
  then have "link_display (c # pre @ 0x5B # d @ 0x5D # 0x28 # url) = None"
    by (simp add: link_display_needs_bracket)
  with Cons show ?case by simp
qed

text \<open>
  C5. The output of the sanitizer should hold an even number of each marker character.
  For the backtick it does not: the pattern for links is applied after the backticks were
  balanced and cuts the text from the opening parenthesis on, with the backticks in it.
  The text of three backticks above is first repaired to two backticks; then the link is
  cut, one of the two goes with it, and the output holds a single backtick.
\<close>

theorem sanitizer_leaves_odd_backtick:
  "count_char 0x60 odd_tick_text = 3 \<and>
   clean_response_text odd_tick_text = [0x60, 0x78] \<and>
   count_char 0x60 (clean_response_text odd_tick_text) = 1"
  by code_simp

end
